theory Spec2Isabelle
  imports Main
begin

section \<open>Go values\<close>

text \<open>
  Go strings and byte slices are \<open>string\<close>. A \<open>map[string]string\<close> is an association
  list with distinct keys; its order is the order in which a \<open>range\<close> loop visits it, and
  the empty list stands for the nil map and the empty map alike (both have \<open>len\<close> 0).
  Go's \<open>int\<close> and \<open>int64\<close> are \<open>int\<close>: the SDK compares them with 0 and prints them,
  it never computes with them.
\<close>

type_synonym bytes = string
type_synonym strmap = "(string \<times> string) list"

text \<open>
  A JSON document. The bytes that \<open>json.Marshal\<close> produces are represented by the
  document they encode; the order of the members of an object built from a Go map bears
  no meaning (\<open>encoding/json\<close> sorts them when it writes).
\<close>

datatype json =
    JNull
  | JBool bool
  | JInt int
  | JString string
  | JArray "json list"
  | JObject "(string \<times> json) list"

definition json_strmap :: "strmap \<Rightarrow> json" where
  "json_strmap m = JObject (map (\<lambda>(k, v). (k, JString v)) m)"

definition json_strings :: "string list \<Rightarrow> json" where
  "json_strings xs = JArray (map JString xs)"

text \<open>Member lookup in an object, \<open>None\<close> for an absent key and for a non-object.\<close>

fun member :: "json \<Rightarrow> string \<Rightarrow> json option" where
  "member (JObject kvs) k = map_of kvs k"
| "member _ k = None"

text \<open>\<open>payload[k] = v\<close> on a \<open>map[string]interface{}\<close>.\<close>

definition put :: "string \<Rightarrow> json \<Rightarrow> (string \<times> json) list \<Rightarrow> (string \<times> json) list" where
  "put k v kvs = (if k \<in> fst ` set kvs then map (\<lambda>(k', v'). if k' = k then (k, v) else (k', v')) kvs
                  else kvs @ [(k, v)])"

text \<open>
  An \<open>interface{}\<close> argument handed to \<open>json.Marshal\<close>: the nil interface, a value
  that marshals to a document, or a value \<open>encoding/json\<close> rejects (a channel, a
  function, a cycle) with the given message.
\<close>

datatype go_any = GoNil | GoValue json | GoUnsupported string

fun json_Marshal :: "go_any \<Rightarrow> string + json" where
  "json_Marshal GoNil = Inr JNull"
| "json_Marshal (GoValue j) = Inr j"
| "json_Marshal (GoUnsupported e) = Inl e"

text \<open>What a file holds: raw bytes, or the text of a JSON document.\<close>

datatype content = Raw bytes | JsonText json

text \<open>\<open>strconv.Itoa\<close>, and \<open>%d\<close> of \<open>fmt\<close>.\<close>

definition digit :: "nat \<Rightarrow> char" where
  "digit n = ''0123456789'' ! (n mod 10)"

fun digits :: "nat \<Rightarrow> string" where
  "digits n = (if n < 10 then [digit n] else digits (n div 10) @ [digit n])"

declare digits.simps [simp del]

definition Itoa :: "int \<Rightarrow> string" where
  "Itoa i = (if i < 0 then CHR ''-'' # digits (nat (- i)) else digits (nat i))"

text \<open>
  \<open>strings.ReplaceAll s old new\<close> for a non-empty \<open>old\<close> (the SDK's one call passes
  the six characters backslash, u, 0, 0, 2, 6), \<open>strings.Trim s cutset\<close>, and the last
  element of \<open>strings.Split s "/"\<close>, a slice that is never empty.
\<close>

function ReplaceAll :: "string \<Rightarrow> string \<Rightarrow> string \<Rightarrow> string" where
  "ReplaceAll s old new =
     (if s = [] \<or> old = [] then s
      else if take (length old) s = old then new @ ReplaceAll (drop (length old) s) old new
      else hd s # ReplaceAll (tl s) old new)"
  by pat_completeness auto
termination
  by (relation "measure (\<lambda>(s, old, new). length s)") (auto simp: neq_Nil_conv)

declare ReplaceAll.simps [simp del]

definition Trim :: "string \<Rightarrow> string \<Rightarrow> string" where
  "Trim s cutset = rev (dropWhile (\<lambda>c. c \<in> set cutset) (rev (dropWhile (\<lambda>c. c \<in> set cutset) s)))"

fun last_segment :: "string \<Rightarrow> string \<Rightarrow> string" where
  "last_segment [] acc = acc"
| "last_segment (c # cs) acc = (if c = CHR ''/'' then last_segment cs [] else last_segment cs (acc @ [c]))"

text \<open>\<open>filepath.Base\<close> on a Unix path.\<close>

definition filepath_Base :: "string \<Rightarrow> string" where
  "filepath_Base p =
     (if p = [] then ''.''
      else let q = rev (dropWhile (\<lambda>c. c = CHR ''/'') (rev p))
           in if q = [] then ''/'' else last_segment q [])"

section \<open>Errors\<close>

text \<open>
  A method of the SDK returns a pair (result, error) whose first component is nil or the
  empty string whenever the error is set, or it panics. \<open>Inl (Err m)\<close> is the pair of
  the zero result and an error with message \<open>m\<close>; \<open>Inl (Panic p)\<close> is a run-time panic:
  \<open>BadConfig\<close> when the service holds no usable \<open>*types.Config\<close>, \<open>NilOptions\<close> when a
  nil options pointer is dereferenced.
\<close>

datatype panic = BadConfig | NilOptions

datatype failure = Err string | Panic panic

type_synonym 'a result = "failure + 'a"

definition wrap :: "string \<Rightarrow> string \<Rightarrow> failure" where
  "wrap msg e = Err (msg @ '': '' @ e)"

section \<open>Configuration and HTTP\<close>

record Config =
  PinataJWT :: string
  PinataGateway :: string
  PinataGatewayKey :: string
  CustomHeaders :: strmap
  APIUrl :: string
  UploadUrl :: string

text \<open>
  A multipart form is the sequence of \<open>WriteField\<close> and \<open>CreateFormFile\<close> calls made on
  its writer; \<open>JsonField k j\<close> is a field whose value is the JSON text of \<open>j\<close>. A
  request's header is the sequence of its \<open>Header.Set\<close> calls.
\<close>

datatype part =
    FormField string string
  | JsonField string json
  | FormFile string string content

fun part_name :: "part \<Rightarrow> string" where
  "part_name (FormField k v) = k"
| "part_name (JsonField k j) = k"
| "part_name (FormFile k f c) = k"

datatype payload = NoBody | JsonBody json | Multipart "part list"

record request =
  verb :: string
  url :: string
  header :: "(string \<times> string) list"
  body :: payload

text \<open>
  A response: \<open>Body\<close> is what \<open>io.ReadAll\<close> reads of \<open>resp.Body\<close>, \<open>BodyError\<close> the
  error the read ends with, if any, and \<open>ContentType\<close> is
  \<open>resp.Header.Get("Content-Type")\<close>.
\<close>

record response =
  StatusCode :: int
  Body :: bytes
  BodyError :: "string option"
  ContentType :: string

text \<open>What \<open>client.Do\<close> returns: a transport error's message, or the response.\<close>

type_synonym reply = "string + response"
type_synonym exchange = "request \<times> reply"

text \<open>The struct a response envelope's \<open>data\<close> member is decoded into.\<close>

datatype dto =
    TFile | TFileList | TSwap | TSwapList | TVectorize | TVectorQuery
  | TPinByHash | TPinQueue | TUpload

datatype sys_op = OpCreateTemp | OpWrite | OpSeek | OpStat | OpRead

section \<open>The world a call runs in\<close>

text \<open>
  The state a call can touch, and the environment it reads.
  \<^item> \<open>config\<close>: the \<open>*types.Config\<close> the service was built from; \<open>None\<close> when the
    service's \<open>config interface{}\<close> holds anything else (the assertion
    \<open>s.config.(*types.Config)\<close> panics) or a nil pointer (its first field access panics).
  \<^item> \<open>sent\<close>: every request handed to \<open>http.Client\<close> so far with what came back, oldest
    first. A redirect followed inside \<open>net/http\<close> is part of one exchange.
  \<^item> \<open>temp\<close>: the files of the temporary directory, by path.
  \<^item> \<open>now\<close>: \<open>time.Now().Unix()\<close>.
  \<^item> \<open>transport\<close>: how the network answers a request, given the exchanges before it.
  \<^item> \<open>request_error\<close>: the error of \<open>http.NewRequest\<close> for a verb and a URL, if any.
  \<^item> \<open>Decode\<close>: \<open>json.NewDecoder(resp.Body).Decode\<close> on a response, into an envelope
    \<open>struct { Data *T }\<close> (or \<open>Data []T\<close>): the decoder's error, or the envelope's
    \<open>Data\<close>, \<open>None\<close> for nil. \<open>'v\<close> is the type of the decoded structs.
    \<open>DecodeText\<close> is the same for \<open>struct { Data string }\<close>.
  \<^item> \<open>DecodeString\<close>: \<open>base64.StdEncoding.DecodeString\<close>;
    \<open>QueryEscape\<close>: \<open>url.QueryEscape\<close>; \<open>Encode\<close>: \<open>url.Values.Encode\<close> of the
    parameters added, in the order of their \<open>Add\<close> calls.
  \<^item> \<open>fault\<close>: the error a system call on the temporary file fails with, if it does.
  \<^item> \<open>TempDir\<close> and \<open>random_names\<close>: \<open>os.TempDir()\<close> and the random strings
    \<open>os.CreateTemp\<close> tries in turn; \<open>boundary\<close>: the random boundary of
    \<open>multipart.NewWriter\<close>.
\<close>

record 'v world =
  config :: "Config option"
  sent :: "exchange list"
  temp :: "string \<rightharpoonup> content"
  now :: int
  transport :: "exchange list \<Rightarrow> request \<Rightarrow> reply"
  request_error :: "string \<Rightarrow> string \<Rightarrow> string option"
  Decode :: "dto \<Rightarrow> response \<Rightarrow> string + 'v option"
  DecodeText :: "response \<Rightarrow> string + string"
  DecodeString :: "string \<Rightarrow> string + bytes"
  QueryEscape :: "string \<Rightarrow> string"
  Encode :: "(string \<times> string) list \<Rightarrow> string"
  fault :: "sys_op \<Rightarrow> string option"
  TempDir :: string
  random_names :: "string list"
  boundary :: string

text \<open>What a method returns when it returns without error.\<close>

record DeleteResponse =
  ID :: string
  Status :: string

datatype 'v answer =
    Data "'v option"
  | Text string
  | Deleted "DeleteResponse list"
  | FileContent string bytes
  | Done

type_synonym 'v outcome = "'v answer result \<times> 'v world"

subsection \<open>The request block every method repeats\<close>

text \<open>
  \<open>cfg := s.config.(*types.Config)\<close> followed by the first read of a field of \<open>cfg\<close>.
\<close>

definition with_config :: "'v world \<Rightarrow> (Config \<Rightarrow> 'a result \<times> 'v world) \<Rightarrow> 'a result \<times> 'v world" where
  "with_config w k =
     (case config w of
        None \<Rightarrow> (Inl (Panic BadConfig), w)
      | Some cfg \<Rightarrow> k cfg)"

definition client_Do :: "request \<Rightarrow> 'v world \<Rightarrow> reply \<times> 'v world" where
  "client_Do req w = (let r = transport w (sent w) req in (r, w\<lparr>sent := sent w @ [(req, r)]\<rparr>))"

definition api_error :: "response \<Rightarrow> failure" where
  "api_error resp = Err (''API error (status '' @ Itoa (StatusCode resp) @ ''): '' @ Body resp)"

text \<open>
  \<open>http.NewRequest\<close>, the \<open>Header.Set\<close> calls, \<open>client.Do\<close> and the status check, as
  every method writes them out:
  \<^verbatim>\<open>
  req, err := http.NewRequest(verb, url, body)
  if err != nil { return nil, fmt.Errorf("failed to create request: %w", err) }
  req.Header.Set(...)
  client := &http.Client{}
  resp, err := client.Do(req)
  if err != nil { return nil, fmt.Errorf("failed to send request: %w", err) }
  defer resp.Body.Close()
  if resp.StatusCode != http.StatusOK {
      body, _ := io.ReadAll(resp.Body)
      return nil, fmt.Errorf("API error (status %d): %s", resp.StatusCode, string(body))
  }
  \<close>
\<close>

definition roundtrip ::
  "string \<Rightarrow> string \<Rightarrow> payload \<Rightarrow> (string \<times> string) list \<Rightarrow> 'v world \<Rightarrow> response result \<times> 'v world" where
  "roundtrip v u b h w =
     (case request_error w v u of
        Some e \<Rightarrow> (Inl (wrap ''failed to create request'' e), w)
      | None \<Rightarrow>
          (case client_Do \<lparr>verb = v, url = u, header = h, body = b\<rparr> w of
             (Inl e, w') \<Rightarrow> (Inl (wrap ''failed to send request'' e), w')
           | (Inr resp, w') \<Rightarrow>
               if StatusCode resp \<noteq> 200 then (Inl (api_error resp), w') else (Inr resp, w')))"

text \<open>The headers of the files service: Authorization, Content-Type, then the custom ones.\<close>

definition api_header :: "Config \<Rightarrow> (string \<times> string) list" where
  "api_header cfg =
     [(''Authorization'', ''Bearer '' @ PinataJWT cfg), (''Content-Type'', ''application/json'')]
     @ CustomHeaders cfg"

text \<open>
  What a method makes of a response with status 200 is a function of the response;
  \<open>finish\<close> applies it to the outcome of the request block. The first one is
  \<^verbatim>\<open>
  var response struct { Data *T `json:"data"` }
  if err := json.NewDecoder(resp.Body).Decode(&response); err != nil {
      return nil, fmt.Errorf("failed to decode response: %w", err)
  }
  return response.Data, nil
  \<close>
  and \<open>no_data\<close> is the \<open>return nil\<close> of the methods that return an error only.
\<close>

definition finish :: "(response \<Rightarrow> 'v answer result) \<Rightarrow> response result \<times> 'v world \<Rightarrow> 'v outcome" where
  "finish g rw = (case rw of (Inl f, w) \<Rightarrow> (Inl f, w) | (Inr resp, w) \<Rightarrow> (g resp, w))"

definition decode_data :: "'v world \<Rightarrow> dto \<Rightarrow> response \<Rightarrow> 'v answer result" where
  "decode_data w t resp =
     (case Decode w t resp of
        Inl e \<Rightarrow> Inl (wrap ''failed to decode response'' e)
      | Inr d \<Rightarrow> Inr (Data d))"

definition no_data :: "response \<Rightarrow> 'v answer result" where
  "no_data resp = Inr Done"

section \<open>The files service\<close>

text \<open>
  \<open>files.PrivateService\<close> and \<open>files.PublicService\<close> are two copies of the same code
  that differ in one path segment, \<open>private\<close> or \<open>public\<close>: it is the first argument of
  the definitions below. The fields of an options struct carry a prefix that names the
  struct, and an options pointer is an \<open>option\<close>, \<open>None\<close> for nil.
\<close>

record ListOptions =
  lo_Name :: string
  lo_Group :: string
  lo_NoGroup :: bool
  lo_CID :: string
  lo_CIDPending :: bool
  lo_MimeType :: string
  lo_KeyValues :: strmap
  lo_Order :: string
  lo_Limit :: int
  lo_PageToken :: string

record UpdateOptions =
  uo_ID :: string
  uo_Name :: string
  uo_KeyValues :: strmap

record SwapOptions =
  so_CID :: string
  so_SwapCID :: string

record SwapHistoryOptions =
  sh_CID :: string
  sh_Domain :: string

record PinByHashOptions =
  ph_CID :: string
  ph_Name :: string
  ph_GroupID :: string
  ph_KeyValues :: strmap
  ph_HostNodes :: "string list"

record PinQueueOptions =
  pq_Sort :: string
  pq_Status :: string
  pq_CID :: string
  pq_Limit :: int
  pq_PageToken :: string

record AccessLinkOptions =
  al_CID :: string
  al_Date :: int
  al_Expires :: int
  al_Gateway :: string

record VectorQueryOptions =
  vq_GroupID :: string
  vq_Query :: string
  vq_ReturnFile :: bool

definition files_Get :: "string \<Rightarrow> string \<Rightarrow> 'v world \<Rightarrow> 'v outcome" where
  "files_Get net fid w =
     with_config w (\<lambda>cfg.
       finish (decode_data w TFile)
         (roundtrip ''GET'' (APIUrl cfg @ ''/files/'' @ net @ ''/'' @ fid) NoBody (api_header cfg) w))"

text \<open>The \<open>params.Add\<close> calls of \<open>List\<close>, in order.\<close>

definition add :: "bool \<Rightarrow> string \<Rightarrow> string \<Rightarrow> (string \<times> string) list" where
  "add c k v = (if c then [(k, v)] else [])"

definition list_params :: "ListOptions option \<Rightarrow> (string \<times> string) list" where
  "list_params opts =
     (case opts of
        None \<Rightarrow> []
      | Some p \<Rightarrow>
          add (lo_Name p \<noteq> []) ''name'' (lo_Name p)
          @ add (lo_Group p \<noteq> []) ''group'' (lo_Group p)
          @ add (lo_NoGroup p) ''group'' ''null''
          @ add (lo_CID p \<noteq> []) ''cid'' (lo_CID p)
          @ add (lo_CIDPending p) ''cidPending'' ''true''
          @ add (lo_MimeType p \<noteq> []) ''mimeType'' (lo_MimeType p)
          @ add (lo_Order p \<noteq> []) ''order'' (lo_Order p)
          @ add (lo_Limit p > 0) ''limit'' (Itoa (lo_Limit p))
          @ add (lo_PageToken p \<noteq> []) ''pageToken'' (lo_PageToken p)
          @ map (\<lambda>(k, v). (''keyvalues['' @ k @ '']'', v)) (lo_KeyValues p))"

definition with_query :: "'v world \<Rightarrow> string \<Rightarrow> (string \<times> string) list \<Rightarrow> string" where
  "with_query w baseURL params = (if params \<noteq> [] then baseURL @ ''?'' @ Encode w params else baseURL)"

definition files_List :: "string \<Rightarrow> ListOptions option \<Rightarrow> 'v world \<Rightarrow> 'v outcome" where
  "files_List net opts w =
     with_config w (\<lambda>cfg.
       finish (decode_data w TFileList)
         (roundtrip ''GET'' (with_query w (APIUrl cfg @ ''/files/'' @ net) (list_params opts))
            NoBody (api_header cfg) w))"

text \<open>
  \<open>json.Marshal\<close> of an \<open>UpdateOptions\<close>: \<open>ID\<close> is tagged \<open>json:"-"\<close>, the other two
  fields \<open>omitempty\<close>. It cannot fail on this struct.
\<close>

definition json_UpdateOptions :: "UpdateOptions \<Rightarrow> json" where
  "json_UpdateOptions p =
     JObject ((if uo_Name p \<noteq> [] then [(''name'', JString (uo_Name p))] else [])
              @ (if uo_KeyValues p \<noteq> [] then [(''keyvalues'', json_strmap (uo_KeyValues p))] else []))"

definition files_Update :: "string \<Rightarrow> UpdateOptions option \<Rightarrow> 'v world \<Rightarrow> 'v outcome" where
  "files_Update net opts w =
     (case opts of
        None \<Rightarrow> (Inl (Err ''file ID is required''), w)
      | Some p \<Rightarrow>
          if uo_ID p = [] then (Inl (Err ''file ID is required''), w)
          else with_config w (\<lambda>cfg.
                 finish (decode_data w TFile)
                   (roundtrip ''PUT'' (APIUrl cfg @ ''/files/'' @ net @ ''/'' @ uo_ID p)
                      (JsonBody (json_UpdateOptions p)) (api_header cfg) w)))"

text \<open>
  The loop of \<open>Delete\<close>: one request per ID, the answer built from the ID alone, and
  the first failure ends the call with a nil slice.
\<close>

fun delete_loop ::
  "Config \<Rightarrow> string \<Rightarrow> string list \<Rightarrow> DeleteResponse list \<Rightarrow> 'v world \<Rightarrow> 'v outcome" where
  "delete_loop cfg net [] responses w = (Inr (Deleted responses), w)"
| "delete_loop cfg net (fid # ids) responses w =
     (case roundtrip ''DELETE'' (APIUrl cfg @ ''/files/'' @ net @ ''/'' @ fid) NoBody (api_header cfg) w of
        (Inl f, w') \<Rightarrow> (Inl f, w')
      | (Inr resp, w') \<Rightarrow>
          delete_loop cfg net ids (responses @ [\<lparr>ID = fid, Status = ''deleted''\<rparr>]) w')"

definition files_Delete :: "string \<Rightarrow> string list \<Rightarrow> 'v world \<Rightarrow> 'v outcome" where
  "files_Delete net ids w =
     (if ids = [] then (Inl (Err ''at least one file ID is required''), w)
      else with_config w (\<lambda>cfg. delete_loop cfg net ids [] w))"

definition files_AddSwap :: "string \<Rightarrow> SwapOptions option \<Rightarrow> 'v world \<Rightarrow> 'v outcome" where
  "files_AddSwap net opts w =
     (case opts of
        None \<Rightarrow> (Inl (Err ''CID and swap CID are required''), w)
      | Some p \<Rightarrow>
          if so_CID p = [] \<or> so_SwapCID p = [] then (Inl (Err ''CID and swap CID are required''), w)
          else with_config w (\<lambda>cfg.
                 finish (decode_data w TSwap)
                   (roundtrip ''PUT'' (APIUrl cfg @ ''/files/'' @ net @ ''/swap/'' @ so_CID p)
                      (JsonBody (JObject [(''swap_cid'', JString (so_SwapCID p))])) (api_header cfg) w)))"

definition files_GetSwapHistory :: "string \<Rightarrow> SwapHistoryOptions option \<Rightarrow> 'v world \<Rightarrow> 'v outcome" where
  "files_GetSwapHistory net opts w =
     (case opts of
        None \<Rightarrow> (Inl (Err ''CID and domain are required''), w)
      | Some p \<Rightarrow>
          if sh_CID p = [] \<or> sh_Domain p = [] then (Inl (Err ''CID and domain are required''), w)
          else with_config w (\<lambda>cfg.
                 finish (decode_data w TSwapList)
                   (roundtrip ''GET''
                      (APIUrl cfg @ ''/files/'' @ net @ ''/swap/'' @ sh_CID p @ ''?domain=''
                         @ QueryEscape w (sh_Domain p))
                      NoBody (api_header cfg) w)))"

definition files_DeleteSwap :: "string \<Rightarrow> string \<Rightarrow> 'v world \<Rightarrow> 'v outcome" where
  "files_DeleteSwap net cid w =
     (if cid = [] then (Inl (Err ''CID is required''), w)
      else with_config w (\<lambda>cfg.
             finish no_data (roundtrip ''DELETE'' (APIUrl cfg @ ''/files/'' @ net @ ''/swap/'' @ cid)
                        NoBody (api_header cfg) w)))"

subsection \<open>Methods of the private service only\<close>

text \<open>
  The envelope of \<open>CreateAccessLink\<close> holds a string, which the method cleans:
  \<^verbatim>\<open>
  accessLink := strings.ReplaceAll(response.Data, "\\u0026", "&")
  accessLink = strings.Trim(accessLink, "\"")
  \<close>
\<close>

definition escaped_amp :: string where
  "escaped_amp = CHR 0x5C # ''u0026''"

definition clean_link :: "string \<Rightarrow> string" where
  "clean_link d = Trim (ReplaceAll d escaped_amp ''&'') [CHR 0x22]"

definition decode_text :: "'v world \<Rightarrow> (string \<Rightarrow> string) \<Rightarrow> response \<Rightarrow> 'v answer result" where
  "decode_text w post resp =
     (case DecodeText w resp of
        Inl e \<Rightarrow> Inl (wrap ''failed to decode response'' e)
      | Inr d \<Rightarrow> Inr (Text (post d)))"

definition access_link_payload :: "Config \<Rightarrow> AccessLinkOptions \<Rightarrow> int \<Rightarrow> json" where
  "access_link_payload cfg p t =
     JObject
       [(''url'', JString (''https://'' @ (if al_Gateway p = [] then PinataGateway cfg else al_Gateway p)
                            @ ''.mypinata.cloud/files/'' @ al_CID p)),
        (''date'', JInt (if al_Date p = 0 then t else al_Date p)),
        (''expires'', JInt (al_Expires p)),
        (''method'', JString ''GET'')]"

definition files_CreateAccessLink :: "AccessLinkOptions option \<Rightarrow> 'v world \<Rightarrow> 'v outcome" where
  "files_CreateAccessLink opts w =
     (case opts of
        None \<Rightarrow> (Inl (Err ''CID and expiration time are required''), w)
      | Some p \<Rightarrow>
          if al_CID p = [] \<or> al_Expires p \<le> 0 then (Inl (Err ''CID and expiration time are required''), w)
          else with_config w (\<lambda>cfg.
                 finish (decode_text w clean_link)
                   (roundtrip ''POST'' (APIUrl cfg @ ''/files/private/download_link'')
                      (JsonBody (access_link_payload cfg p (now w))) (api_header cfg) w)))"

definition files_Vectorize :: "string \<Rightarrow> 'v world \<Rightarrow> 'v outcome" where
  "files_Vectorize fileID w =
     (if fileID = [] then (Inl (Err ''file ID is required''), w)
      else with_config w (\<lambda>cfg.
             finish (decode_data w TVectorize)
               (roundtrip ''POST'' (APIUrl cfg @ ''/vectorize/files/'' @ fileID) NoBody (api_header cfg) w)))"

definition files_DeleteVectors :: "string \<Rightarrow> 'v world \<Rightarrow> 'v outcome" where
  "files_DeleteVectors fileID w =
     (if fileID = [] then (Inl (Err ''file ID is required''), w)
      else with_config w (\<lambda>cfg.
             finish (decode_data w TVectorize)
               (roundtrip ''DELETE'' (APIUrl cfg @ ''/vectorize/files/'' @ fileID) NoBody (api_header cfg) w)))"

text \<open>
  With \<open>ReturnFile\<close> set, \<open>QueryVectors\<close> decodes no envelope: it returns the body as it
  came, with its content type.
\<close>

definition file_response :: "response \<Rightarrow> 'v answer result" where
  "file_response resp =
     (case BodyError resp of
        Some e \<Rightarrow> Inl (wrap ''failed to read response body'' e)
      | None \<Rightarrow> Inr (FileContent (ContentType resp) (Body resp)))"

definition files_QueryVectors :: "VectorQueryOptions option \<Rightarrow> 'v world \<Rightarrow> 'v outcome" where
  "files_QueryVectors opts w =
     (case opts of
        None \<Rightarrow> (Inl (Err ''group ID and query text are required''), w)
      | Some p \<Rightarrow>
          if vq_GroupID p = [] \<or> vq_Query p = [] then (Inl (Err ''group ID and query text are required''), w)
          else with_config w (\<lambda>cfg.
                 finish (if vq_ReturnFile p then file_response else decode_data w TVectorQuery)
                   (roundtrip ''POST'' (APIUrl cfg @ ''/vectorize/groups/'' @ vq_GroupID p @ ''/query'')
                      (JsonBody (JObject [(''text'', JString (vq_Query p))])) (api_header cfg) w)))"

subsection \<open>Methods of the public service only\<close>

text \<open>\<open>json.Marshal\<close> of a \<open>PinByHashOptions\<close>: every field but \<open>cid\<close> is \<open>omitempty\<close>.\<close>

definition json_PinByHashOptions :: "PinByHashOptions \<Rightarrow> json" where
  "json_PinByHashOptions p =
     JObject ([(''cid'', JString (ph_CID p))]
              @ (if ph_Name p \<noteq> [] then [(''name'', JString (ph_Name p))] else [])
              @ (if ph_GroupID p \<noteq> [] then [(''group_id'', JString (ph_GroupID p))] else [])
              @ (if ph_KeyValues p \<noteq> [] then [(''keyvalues'', json_strmap (ph_KeyValues p))] else [])
              @ (if ph_HostNodes p \<noteq> [] then [(''host_nodes'', json_strings (ph_HostNodes p))] else []))"

definition files_PinByHash :: "PinByHashOptions option \<Rightarrow> 'v world \<Rightarrow> 'v outcome" where
  "files_PinByHash opts w =
     (case opts of
        None \<Rightarrow> (Inl (Err ''CID is required''), w)
      | Some p \<Rightarrow>
          if ph_CID p = [] then (Inl (Err ''CID is required''), w)
          else with_config w (\<lambda>cfg.
                 finish (decode_data w TPinByHash)
                   (roundtrip ''POST'' (APIUrl cfg @ ''/files/public/pin_by_cid'')
                      (JsonBody (json_PinByHashOptions p)) (api_header cfg) w)))"

definition queue_params :: "PinQueueOptions option \<Rightarrow> (string \<times> string) list" where
  "queue_params opts =
     (case opts of
        None \<Rightarrow> []
      | Some p \<Rightarrow>
          add (pq_Sort p \<noteq> []) ''order'' (pq_Sort p)
          @ add (pq_Status p \<noteq> []) ''status'' (pq_Status p)
          @ add (pq_CID p \<noteq> []) ''cid'' (pq_CID p)
          @ add (pq_Limit p > 0) ''limit'' (Itoa (pq_Limit p))
          @ add (pq_PageToken p \<noteq> []) ''pageToken'' (pq_PageToken p))"

definition files_Queue :: "PinQueueOptions option \<Rightarrow> 'v world \<Rightarrow> 'v outcome" where
  "files_Queue opts w =
     with_config w (\<lambda>cfg.
       finish (decode_data w TPinQueue)
         (roundtrip ''GET'' (with_query w (APIUrl cfg @ ''/files/public/pin_by_cid'') (queue_params opts))
            NoBody (api_header cfg) w))"

definition files_CancelPinRequest :: "string \<Rightarrow> 'v world \<Rightarrow> 'v outcome" where
  "files_CancelPinRequest rid w =
     (if rid = [] then (Inl (Err ''request ID is required''), w)
      else with_config w (\<lambda>cfg.
             finish no_data (roundtrip ''DELETE'' (APIUrl cfg @ ''/files/public/pin_by_cid/'' @ rid)
                        NoBody (api_header cfg) w)))"


section \<open>The upload service\<close>

text \<open>
  An open \<open>*os.File\<close>, by what its methods return: \<open>Name\<close> is \<open>file.Name()\<close>,
  \<open>Stat\<close> the error of \<open>file.Stat()\<close> or the \<open>Name()\<close> of the file info, \<open>Seek\<close> the
  error of \<open>file.Seek(0, 0)\<close>, if any, and \<open>Read\<close> the error of reading the file from
  its start, or what it holds.
\<close>

record os_file =
  Name :: string
  Stat :: "string + string"
  Seek :: "string option"
  Read :: "string + content"

record FileOptions =
  fo_FileName :: string
  fo_GroupID :: string
  fo_KeyValues :: strmap
  fo_Vectorize :: bool

record JSONOptions =
  jo_Name :: string
  jo_GroupID :: string
  jo_KeyValues :: strmap
  jo_Vectorize :: bool

record Base64Options =
  bo_Name :: string
  bo_GroupID :: string
  bo_KeyValues :: strmap
  bo_Vectorize :: bool

record URLOptions =
  ur_Name :: string
  ur_GroupID :: string
  ur_KeyValues :: strmap
  ur_Vectorize :: bool

record SignedUploadOptions =
  su_Date :: int
  su_Expires :: int
  su_GroupID :: string
  su_Name :: string
  su_KeyValues :: strmap
  su_Vectorize :: bool
  su_MaxFileSize :: int
  su_MimeTypes :: "string list"

text \<open>The headers of the upload service: Content-Type, Authorization, then the custom ones.\<close>

definition upload_header :: "string \<Rightarrow> Config \<Rightarrow> (string \<times> string) list" where
  "upload_header ct cfg =
     [(''Content-Type'', ct), (''Authorization'', ''Bearer '' @ PinataJWT cfg)] @ CustomHeaders cfg"

text \<open>
  The form is written into a \<open>bytes.Buffer\<close>, so \<open>WriteField\<close>, \<open>CreateFormFile\<close> and
  \<open>Close\<close> do not fail; marshalling a \<open>map[string]string\<close> does not fail either.
  \<open>post_form\<close> is the tail \<open>File\<close> and \<open>FileArray\<close> share: the request, and the
  envelope decoded into an \<open>UploadResponse\<close>.
\<close>

definition post_form :: "Config \<Rightarrow> part list \<Rightarrow> 'v world \<Rightarrow> 'v outcome" where
  "post_form cfg parts w =
     finish (decode_data w TUpload)
       (roundtrip ''POST'' (UploadUrl cfg @ ''/files'') (Multipart parts)
          (upload_header (''multipart/form-data; boundary='' @ boundary w) cfg) w)"

text \<open>The optional fields of \<open>File\<close>; \<open>info_name\<close> is \<open>fileInfo.Name()\<close>.\<close>

definition file_fields :: "string \<Rightarrow> FileOptions option \<Rightarrow> part list" where
  "file_fields info_name opts =
     (case opts of
        None \<Rightarrow> []
      | Some p \<Rightarrow>
          (if fo_GroupID p \<noteq> [] then [FormField ''group_id'' (fo_GroupID p)] else [])
          @ [FormField ''name'' (if fo_FileName p \<noteq> [] then fo_FileName p else info_name)]
          @ (if fo_KeyValues p \<noteq> [] then [JsonField ''keyvalues'' (json_strmap (fo_KeyValues p))] else []))"

definition upload_File :: "os_file option \<Rightarrow> FileOptions option \<Rightarrow> 'v world \<Rightarrow> 'v outcome" where
  "upload_File file opts w =
     (case file of
        None \<Rightarrow> (Inl (Err ''file is required''), w)
      | Some f \<Rightarrow>
          (case Stat f of
             Inl e \<Rightarrow> (Inl (wrap ''failed to get file info'' e), w)
           | Inr info_name \<Rightarrow>
               (case Seek f of
                  Some e \<Rightarrow> (Inl (wrap ''failed to reset file position'' e), w)
                | None \<Rightarrow>
                    with_config w (\<lambda>cfg.
                      (case Read f of
                         Inl e \<Rightarrow> (Inl (wrap ''failed to copy file data'' e), w)
                       | Inr c \<Rightarrow>
                           post_form cfg
                             ([FormField ''network'' ''private''] @ file_fields info_name opts
                              @ [FormFile ''file'' (filepath_Base (Name f)) c]) w)))))"

text \<open>The optional fields of \<open>FileArray\<close>: the name is written only when one is given.\<close>

definition folder_fields :: "FileOptions option \<Rightarrow> part list" where
  "folder_fields opts =
     (case opts of
        None \<Rightarrow> []
      | Some p \<Rightarrow>
          (if fo_GroupID p \<noteq> [] then [FormField ''group_id'' (fo_GroupID p)] else [])
          @ (if fo_FileName p \<noteq> [] then [FormField ''name'' (fo_FileName p)] else [])
          @ (if fo_KeyValues p \<noteq> [] then [JsonField ''keyvalues'' (json_strmap (fo_KeyValues p))] else []))"

text \<open>
  The loop over the files of \<open>FileArray\<close>. \<open>Seek\<close> on a nil \<open>*os.File\<close> returns
  \<open>os.ErrInvalid\<close>.
\<close>

fun add_files :: "os_file option list \<Rightarrow> failure + part list" where
  "add_files [] = Inr []"
| "add_files (None # files) = Inl (wrap ''failed to reset file position'' ''invalid argument'')"
| "add_files (Some f # files) =
     (case Seek f of
        Some e \<Rightarrow> Inl (wrap ''failed to reset file position'' e)
      | None \<Rightarrow>
          (case Read f of
             Inl e \<Rightarrow> Inl (wrap ''failed to copy file data'' e)
           | Inr c \<Rightarrow>
               (case add_files files of
                  Inl x \<Rightarrow> Inl x
                | Inr ps \<Rightarrow> Inr (FormFile ''file'' (filepath_Base (Name f)) c # ps))))"

definition upload_FileArray :: "os_file option list \<Rightarrow> FileOptions option \<Rightarrow> 'v world \<Rightarrow> 'v outcome" where
  "upload_FileArray files opts w =
     (if files = [] then (Inl (Err ''at least one file is required''), w)
      else with_config w (\<lambda>cfg.
             (case add_files files of
                Inl x \<Rightarrow> (Inl x, w)
              | Inr ps \<Rightarrow> post_form cfg ([FormField ''network'' ''private''] @ folder_fields opts @ ps) w)))"

subsection \<open>Temporary files\<close>

text \<open>
  \<open>os.CreateTemp("", prefix + "*" + suffix)\<close> creates an empty file under a name no file
  of the temporary directory has; \<open>tmpFile.Write\<close> fills it; the deferred
  \<open>os.Remove(tmpFile.Name())\<close>, whose error the SDK drops, runs on every way out of the
  method, a panic included. \<open>temp_file\<close> is the open temporary file as \<open>File\<close> sees it.
\<close>

definition CreateTemp :: "string \<Rightarrow> string \<Rightarrow> 'v world \<Rightarrow> (string + string) \<times> 'v world" where
  "CreateTemp prefix suffix w =
     (case fault w OpCreateTemp of
        Some e \<Rightarrow> (Inl e, w)
      | None \<Rightarrow>
          (case find (\<lambda>p. temp w p = None)
                  (map (\<lambda>r. TempDir w @ ''/'' @ prefix @ r @ suffix) (random_names w)) of
             None \<Rightarrow> (Inl ''file exists'', w)
           | Some p \<Rightarrow> (Inr p, w\<lparr>temp := (temp w)(p \<mapsto> Raw [])\<rparr>)))"

definition Write :: "string \<Rightarrow> content \<Rightarrow> 'v world \<Rightarrow> string option \<times> 'v world" where
  "Write p c w =
     (case fault w OpWrite of
        Some e \<Rightarrow> (Some e, w)
      | None \<Rightarrow> (None, w\<lparr>temp := (temp w)(p \<mapsto> c)\<rparr>))"

definition Remove :: "string \<Rightarrow> 'a \<times> 'v world \<Rightarrow> 'a \<times> 'v world" where
  "Remove p rw = (case rw of (r, w) \<Rightarrow> (r, w\<lparr>temp := (temp w)(p := None)\<rparr>))"

definition temp_file :: "string \<Rightarrow> 'v world \<Rightarrow> os_file" where
  "temp_file p w =
     \<lparr>Name = p,
      Stat = (case fault w OpStat of Some e \<Rightarrow> Inl e | None \<Rightarrow> Inr (filepath_Base p)),
      Seek = fault w OpSeek,
      Read = (case fault w OpRead of
                Some e \<Rightarrow> Inl e
              | None \<Rightarrow> (case temp w p of Some c \<Rightarrow> Inr c | None \<Rightarrow> Inl ''file already closed''))\<rparr>"

text \<open>
  What \<open>JSON\<close>, \<open>Base64\<close> and \<open>URL\<close> do once the temporary file \<open>p\<close> holds the
  content: rewind, build the \<open>FileOptions\<close> from the fields of the options (here the
  nil pointer is dereferenced), and call \<open>File\<close>. The options arrive as the triple of
  \<open>GroupID\<close>, \<open>KeyValues\<close> and the file name chosen.
\<close>

definition upload_staged ::
  "string \<Rightarrow> (string \<times> strmap \<times> string) option \<Rightarrow> 'v world \<Rightarrow> 'v outcome" where
  "upload_staged p opts w =
     (case fault w OpSeek of
        Some e \<Rightarrow> (Inl (wrap ''failed to reset file position'' e), w)
      | None \<Rightarrow>
          (case opts of
             None \<Rightarrow> (Inl (Panic NilOptions), w)
           | Some (g, kv, n) \<Rightarrow>
               upload_File (Some (temp_file p w))
                 (Some \<lparr>fo_FileName = n, fo_GroupID = g, fo_KeyValues = kv, fo_Vectorize = False\<rparr>) w))"

text \<open>
  The three helpers share their staging: create the temporary file, defer its removal,
  fill it, and upload it. They differ in the pattern of the file's name, in how it is
  filled (\<open>tmpFile.Write\<close> in \<open>JSON\<close> and \<open>Base64\<close>, \<open>io.Copy\<close> from the response in
  \<open>URL\<close>, each with its own error message) and in the default name.
\<close>

definition write_all :: "content \<Rightarrow> string \<Rightarrow> 'v world \<Rightarrow> failure option \<times> 'v world" where
  "write_all c p w =
     (case Write p c w of
        (Some e, w') \<Rightarrow> (Some (wrap ''failed to write to temporary file'' e), w')
      | (None, w') \<Rightarrow> (None, w'))"

definition stage ::
  "string \<Rightarrow> string \<Rightarrow> (string \<Rightarrow> 'v world \<Rightarrow> failure option \<times> 'v world) \<Rightarrow>
   (string \<times> strmap \<times> string) option \<Rightarrow> 'v world \<Rightarrow> 'v outcome" where
  "stage prefix suffix fill opts w =
     (case CreateTemp prefix suffix w of
        (Inl e, w1) \<Rightarrow> (Inl (wrap ''failed to create temporary file'' e), w1)
      | (Inr p, w1) \<Rightarrow>
          Remove p
            (case fill p w1 of
               (Some f, w2) \<Rightarrow> (Inl f, w2)
             | (None, w2) \<Rightarrow> upload_staged p opts w2))"

definition upload_JSON :: "go_any \<Rightarrow> JSONOptions option \<Rightarrow> 'v world \<Rightarrow> 'v outcome" where
  "upload_JSON data opts w =
     (if data = GoNil then (Inl (Err ''JSON data is required''), w)
      else
        (case json_Marshal data of
           Inl e \<Rightarrow> (Inl (wrap ''failed to marshal JSON data'' e), w)
         | Inr jsonData \<Rightarrow>
             stage ''pinata-json-'' ''.json'' (write_all (JsonText jsonData))
               (map_option (\<lambda>p. (jo_GroupID p, jo_KeyValues p,
                                   if jo_Name p \<noteq> [] then jo_Name p else ''data.json'')) opts) w))"

definition upload_Base64 :: "string \<Rightarrow> Base64Options option \<Rightarrow> 'v world \<Rightarrow> 'v outcome" where
  "upload_Base64 data opts w =
     (if data = [] then (Inl (Err ''base64 data is required''), w)
      else
        (case DecodeString w data of
           Inl e \<Rightarrow> (Inl (wrap ''failed to decode base64 data'' e), w)
         | Inr decoded \<Rightarrow>
             stage ''pinata-base64-'' [] (write_all (Raw decoded))
               (map_option (\<lambda>p. (bo_GroupID p, bo_KeyValues p,
                                   if bo_Name p \<noteq> [] then bo_Name p else ''file'')) opts) w))"


text \<open>
  \<open>client.Get\<close> builds its request with \<open>http.NewRequest\<close> and sets no header.
  \<open>io.Copy(tmpFile, resp.Body)\<close> writes what it reads, and fails with the error of the
  write or of the read.
\<close>

definition client_Get :: "string \<Rightarrow> 'v world \<Rightarrow> reply \<times> 'v world" where
  "client_Get u w =
     (case request_error w ''GET'' u of
        Some e \<Rightarrow> (Inl e, w)
      | None \<Rightarrow> client_Do \<lparr>verb = ''GET'', url = u, header = [], body = NoBody\<rparr> w)"

definition io_Copy :: "string \<Rightarrow> response \<Rightarrow> 'v world \<Rightarrow> string option \<times> 'v world" where
  "io_Copy p resp w =
     (case (if Body resp = [] then (None, w) else Write p (Raw (Body resp)) w) of
        (Some e, w') \<Rightarrow> (Some e, w')
      | (None, w') \<Rightarrow> (BodyError resp, w'))"

definition copy_body :: "response \<Rightarrow> string \<Rightarrow> 'v world \<Rightarrow> failure option \<times> 'v world" where
  "copy_body resp p w =
     (case io_Copy p resp w of
        (Some e, w') \<Rightarrow> (Some (wrap ''failed to copy URL content'' e), w')
      | (None, w') \<Rightarrow> (None, w'))"

definition url_file_name :: "string \<Rightarrow> string" where
  "url_file_name targetURL =
     (let seg = last_segment targetURL [] in if seg \<noteq> [] then seg else ''file'')"

definition upload_URL :: "string \<Rightarrow> URLOptions option \<Rightarrow> 'v world \<Rightarrow> 'v outcome" where
  "upload_URL targetURL opts w =
     (if targetURL = [] then (Inl (Err ''URL is required''), w)
      else
        (case client_Get targetURL w of
           (Inl e, w1) \<Rightarrow> (Inl (wrap ''failed to fetch URL content'' e), w1)
         | (Inr resp, w1) \<Rightarrow>
             if StatusCode resp \<noteq> 200
             then (Inl (Err (''URL returned non-OK status: '' @ Itoa (StatusCode resp))), w1)
             else
               stage ''pinata-url-'' [] (copy_body resp)
                 (map_option (\<lambda>p. (ur_GroupID p, ur_KeyValues p,
                                     if ur_Name p \<noteq> [] then ur_Name p else url_file_name targetURL)) opts)
                 w1))"

subsection \<open>Signed upload URLs\<close>

text \<open>
  The payload of \<open>CreateSignedURL\<close>, a \<open>map[string]interface{}\<close>; \<open>t\<close> is the current
  Unix time. Marshalling it does not fail.
\<close>

definition signed_url_payload :: "SignedUploadOptions \<Rightarrow> int \<Rightarrow> json" where
  "signed_url_payload p t =
     (let payload = [(''date'', JInt (if su_Date p = 0 then t else su_Date p)),
                     (''expires'', JInt (su_Expires p)),
                     (''network'', JString ''private'')];
          payload = (if su_GroupID p \<noteq> [] then put ''group_id'' (JString (su_GroupID p)) payload else payload);
          payload = (if su_Name p \<noteq> [] then put ''filename'' (JString (su_Name p)) payload else payload);
          payload = (if su_KeyValues p \<noteq> [] then put ''keyvalues'' (json_strmap (su_KeyValues p)) payload else payload);
          payload = (if su_Vectorize p then put ''vectorize'' (JBool True) payload else payload);
          payload = (if su_MaxFileSize p > 0 then put ''max_file_size'' (JInt (su_MaxFileSize p)) payload else payload);
          payload = (if su_MimeTypes p \<noteq> [] then put ''allow_mime_types'' (json_strings (su_MimeTypes p)) payload else payload)
      in JObject payload)"

definition upload_CreateSignedURL :: "SignedUploadOptions option \<Rightarrow> 'v world \<Rightarrow> 'v outcome" where
  "upload_CreateSignedURL opts w =
     (case opts of
        None \<Rightarrow> (Inl (Err ''expiration time is required''), w)
      | Some p \<Rightarrow>
          if su_Expires p \<le> 0 then (Inl (Err ''expiration time is required''), w)
          else with_config w (\<lambda>cfg.
                 finish (decode_text w (\<lambda>d. d))
                   (roundtrip ''POST'' (UploadUrl cfg @ ''/files/sign'')
                      (JsonBody (signed_url_payload p (now w)))
                      (upload_header ''application/json'' cfg) w)))"

section \<open>The calls of the SDK\<close>

text \<open>
  One constructor for each method of \<open>files.PrivateService\<close>, \<open>files.PublicService\<close>
  and \<open>upload.PrivateService\<close>, with its arguments; \<open>run\<close> is the method called.
\<close>

datatype network = Private | Public

fun segment :: "network \<Rightarrow> string" where
  "segment Private = ''private''"
| "segment Public = ''public''"

datatype call =
    GetFile network string
  | ListFiles network "ListOptions option"
  | UpdateFile network "UpdateOptions option"
  | DeleteFiles network "string list"
  | AddSwap network "SwapOptions option"
  | GetSwapHistory network "SwapHistoryOptions option"
  | DeleteSwap network string
  | CreateAccessLink "AccessLinkOptions option"
  | Vectorize string
  | DeleteVectors string
  | QueryVectors "VectorQueryOptions option"
  | PinByHash "PinByHashOptions option"
  | Queue "PinQueueOptions option"
  | CancelPinRequest string
  | UploadFile "os_file option" "FileOptions option"
  | UploadFileArray "os_file option list" "FileOptions option"
  | UploadJSON go_any "JSONOptions option"
  | UploadBase64 string "Base64Options option"
  | UploadURL string "URLOptions option"
  | CreateSignedURL "SignedUploadOptions option"

fun run :: "call \<Rightarrow> 'v world \<Rightarrow> 'v outcome" where
  "run (GetFile n fid) = files_Get (segment n) fid"
| "run (ListFiles n opts) = files_List (segment n) opts"
| "run (UpdateFile n opts) = files_Update (segment n) opts"
| "run (DeleteFiles n ids) = files_Delete (segment n) ids"
| "run (AddSwap n opts) = files_AddSwap (segment n) opts"
| "run (GetSwapHistory n opts) = files_GetSwapHistory (segment n) opts"
| "run (DeleteSwap n cid) = files_DeleteSwap (segment n) cid"
| "run (CreateAccessLink opts) = files_CreateAccessLink opts"
| "run (Vectorize fid) = files_Vectorize fid"
| "run (DeleteVectors fid) = files_DeleteVectors fid"
| "run (QueryVectors opts) = files_QueryVectors opts"
| "run (PinByHash opts) = files_PinByHash opts"
| "run (Queue opts) = files_Queue opts"
| "run (CancelPinRequest rid) = files_CancelPinRequest rid"
| "run (UploadFile file opts) = upload_File file opts"
| "run (UploadFileArray files opts) = upload_FileArray files opts"
| "run (UploadJSON data opts) = upload_JSON data opts"
| "run (UploadBase64 data opts) = upload_Base64 data opts"
| "run (UploadURL targetURL opts) = upload_URL targetURL opts"
| "run (CreateSignedURL opts) = upload_CreateSignedURL opts"

text \<open>The exchanges a call adds to the log, and the requests among them.\<close>

definition exchanges :: "call \<Rightarrow> 'v world \<Rightarrow> exchange list" where
  "exchanges c w = drop (length (sent w)) (sent (snd (run c w)))"

definition requests :: "call \<Rightarrow> 'v world \<Rightarrow> request list" where
  "requests c w = map fst (exchanges c w)"

section \<open>The vocabulary of the claims\<close>

text \<open>
  A reply is accepted when it is a response with status 200. \<open>step w xs w'\<close>: the world
  \<open>w'\<close> is \<open>w\<close> with the exchanges \<open>xs\<close> added to the log, and perhaps other temporary
  files; nothing else differs. \<open>attempt\<close> is the exchange the request block makes when
  \<open>http.NewRequest\<close> accepts the URL.
\<close>

definition accepted :: "reply \<Rightarrow> bool" where
  "accepted r = (case r of Inl e \<Rightarrow> False | Inr resp \<Rightarrow> StatusCode resp = 200)"

definition step :: "'v world \<Rightarrow> exchange list \<Rightarrow> 'v world \<Rightarrow> bool" where
  "step w xs w' = (w' = w\<lparr>sent := sent w @ xs, temp := temp w'\<rparr>)"

definition attempt :: "string \<Rightarrow> string \<Rightarrow> payload \<Rightarrow> (string \<times> string) list \<Rightarrow> 'v world \<Rightarrow> exchange" where
  "attempt v u b h w =
     (\<lparr>verb = v, url = u, header = h, body = b\<rparr>, transport w (sent w) \<lparr>verb = v, url = u, header = h, body = b\<rparr>)"

text \<open>
  \<open>reported g\<close>: what the request block and the method's last lines make of a reply,
  \<open>g\<close> being applied to a response with status 200. \<open>single g w rw\<close>: the outcome \<open>rw\<close> of
  a call made in \<open>w\<close> either sent nothing and is an error or a panic, or sent one request
  and is what \<open>reported g\<close> makes of its reply.
\<close>

definition reported :: "(response \<Rightarrow> 'v answer result) \<Rightarrow> reply \<Rightarrow> 'v answer result" where
  "reported g r =
     (case r of
        Inl e \<Rightarrow> Inl (wrap ''failed to send request'' e)
      | Inr resp \<Rightarrow> if StatusCode resp \<noteq> 200 then Inl (api_error resp) else g resp)"

definition single :: "(response \<Rightarrow> 'v answer result) \<Rightarrow> 'v world \<Rightarrow> 'v outcome \<Rightarrow> bool" where
  "single g w rw =
     ((isl (fst rw) \<and> step w [] (snd rw)) \<or>
      (\<exists>x. step w [x] (snd rw) \<and> fst rw = reported g (snd x)))"

text \<open>
  The \<open>DeleteResponse\<close> that \<open>Delete\<close> builds for an ID, and the request it sends for it.
\<close>

definition deleted :: "string \<Rightarrow> DeleteResponse" where
  "deleted i = \<lparr>ID = i, Status = ''deleted''\<rparr>"

definition delete_request :: "Config \<Rightarrow> string \<Rightarrow> string \<Rightarrow> request" where
  "delete_request cfg net i =
     \<lparr>verb = ''DELETE'', url = APIUrl cfg @ ''/files/'' @ net @ ''/'' @ i, header = api_header cfg, body = NoBody\<rparr>"

text \<open>
  The error a call returns when one of its requests is not accepted: \<open>report\<close> for every
  request sent to the service, and for the fetch that \<open>URL\<close> makes first (its exchange
  number 0) the two messages of \<open>URL\<close>. \<open>fetch c ys\<close>: the exchange that follows the
  exchanges \<open>ys\<close> of the call \<open>c\<close> is that fetch. \<open>budget\<close> is the number of requests a call makes
  when nothing fails. \<open>made_of c w\<close> is what the call \<open>c\<close> returns for the response, with
  status 200, to its last request: the last lines of each method.
\<close>

definition report :: "reply \<Rightarrow> failure" where
  "report r = (case r of Inl e \<Rightarrow> wrap ''failed to send request'' e | Inr resp \<Rightarrow> api_error resp)"

fun refusal :: "call \<Rightarrow> nat \<Rightarrow> reply \<Rightarrow> failure" where
  "refusal (UploadURL u opts) 0 r =
     (case r of
        Inl e \<Rightarrow> wrap ''failed to fetch URL content'' e
      | Inr resp \<Rightarrow> Err (''URL returned non-OK status: '' @ Itoa (StatusCode resp)))"
| "refusal c k r = report r"

fun fetch :: "call \<Rightarrow> exchange list \<Rightarrow> bool" where
  "fetch (UploadURL u opts) ys = (ys = [])"
| "fetch c ys = False"

fun budget :: "call \<Rightarrow> nat" where
  "budget (DeleteFiles n ids) = length ids"
| "budget (UploadURL u opts) = 2"
| "budget c = 1"

fun made_of :: "call \<Rightarrow> 'v world \<Rightarrow> response \<Rightarrow> 'v answer result" where
  "made_of (GetFile n fid) w = decode_data w TFile"
| "made_of (ListFiles n opts) w = decode_data w TFileList"
| "made_of (UpdateFile n opts) w = decode_data w TFile"
| "made_of (DeleteFiles n ids) w = (\<lambda>resp. Inr (Deleted (map deleted ids)))"
| "made_of (AddSwap n opts) w = decode_data w TSwap"
| "made_of (GetSwapHistory n opts) w = decode_data w TSwapList"
| "made_of (DeleteSwap n cid) w = no_data"
| "made_of (CreateAccessLink opts) w = decode_text w clean_link"
| "made_of (Vectorize fid) w = decode_data w TVectorize"
| "made_of (DeleteVectors fid) w = decode_data w TVectorize"
| "made_of (QueryVectors opts) w =
     (case opts of
        Some p \<Rightarrow> if vq_ReturnFile p then file_response else decode_data w TVectorQuery
      | None \<Rightarrow> decode_data w TVectorQuery)"
| "made_of (PinByHash opts) w = decode_data w TPinByHash"
| "made_of (Queue opts) w = decode_data w TPinQueue"
| "made_of (CancelPinRequest rid) w = no_data"
| "made_of (UploadFile file opts) w = decode_data w TUpload"
| "made_of (UploadFileArray files opts) w = decode_data w TUpload"
| "made_of (UploadJSON data opts) w = decode_data w TUpload"
| "made_of (UploadBase64 data opts) w = decode_data w TUpload"
| "made_of (UploadURL targetURL opts) w = decode_data w TUpload"
| "made_of (CreateSignedURL opts) w = decode_text w (\<lambda>d. d)"

text \<open>
  \<open>conducted rep g n xs r\<close>: a call that made the exchanges \<open>xs\<close> and returned \<open>r\<close> kept
  to at most \<open>n\<close> requests, sent none after one that was not accepted, returned the error
  \<open>rep\<close> names when the last was not accepted, an error or a panic when it stopped short
  of \<open>n\<close> requests, and otherwise what \<open>g\<close> makes of the last response.
\<close>

definition conducted ::
  "(nat \<Rightarrow> reply \<Rightarrow> failure) \<Rightarrow> (response \<Rightarrow> 'v answer result) \<Rightarrow> nat \<Rightarrow> exchange list \<Rightarrow> 'v answer result \<Rightarrow> bool" where
  "conducted rep g n xs r =
     (length xs \<le> n \<and> list_all (\<lambda>x. accepted (snd x)) (butlast xs) \<and>
      (if xs = [] then isl r
       else if \<not> accepted (snd (last xs)) then r = Inl (rep (length xs - 1) (snd (last xs)))
       else if length xs < n then isl r
       else r = reported g (snd (last xs))))"






text \<open>
  What a call returns for the response, with status 200, to its last request, by kind:
  \<open>Envelope t\<close>, the \<open>data\<close> member of the envelope decoded into the struct \<open>t\<close>;
  \<open>Link\<close> and \<open>Plain\<close>, the \<open>data\<close> string of the envelope, cleaned by
  \<open>CreateAccessLink\<close> and as it came for \<open>CreateSignedURL\<close>; \<open>RawFile\<close>, the body
  undecoded, with its content type; \<open>Built ids\<close>, the list \<open>Delete\<close> builds from its
  IDs; \<open>Nothing\<close>, no value: the method returns an error only. \<open>kind\<close> is the table of
  the methods, read off the declaration of \<open>response\<close> and the \<open>return\<close> that ends each.
\<close>

datatype result_kind = Envelope dto | Link | Plain | RawFile | Built "string list" | Nothing

fun kind :: "call \<Rightarrow> result_kind" where
  "kind (GetFile n fid) = Envelope TFile"
| "kind (ListFiles n opts) = Envelope TFileList"
| "kind (UpdateFile n opts) = Envelope TFile"
| "kind (DeleteFiles n ids) = Built ids"
| "kind (AddSwap n opts) = Envelope TSwap"
| "kind (GetSwapHistory n opts) = Envelope TSwapList"
| "kind (DeleteSwap n cid) = Nothing"
| "kind (CreateAccessLink opts) = Link"
| "kind (Vectorize fid) = Envelope TVectorize"
| "kind (DeleteVectors fid) = Envelope TVectorize"
| "kind (QueryVectors opts) =
     (case opts of
        None \<Rightarrow> Envelope TVectorQuery
      | Some p \<Rightarrow> if vq_ReturnFile p then RawFile else Envelope TVectorQuery)"
| "kind (PinByHash opts) = Envelope TPinByHash"
| "kind (Queue opts) = Envelope TPinQueue"
| "kind (CancelPinRequest rid) = Nothing"
| "kind (UploadFile file opts) = Envelope TUpload"
| "kind (UploadFileArray files opts) = Envelope TUpload"
| "kind (UploadJSON data opts) = Envelope TUpload"
| "kind (UploadBase64 data opts) = Envelope TUpload"
| "kind (UploadURL targetURL opts) = Envelope TUpload"
| "kind (CreateSignedURL opts) = Plain"




section \<open>Concrete worlds\<close>

text \<open>
  A configured client with an empty log and an empty temporary directory, whose network
  answers each request by \<open>net\<close>; its decoder accepts the body \<open>{}\<close> and nothing else.
\<close>

definition config0 :: Config where
  "config0 = \<lparr>PinataJWT = ''jwt'', PinataGateway = ''gw'', PinataGatewayKey = [],
               CustomHeaders = [], APIUrl = ''https://api'', UploadUrl = ''https://up''\<rparr>"

definition answer_with :: "int \<Rightarrow> string \<Rightarrow> response" where
  "answer_with code b = \<lparr>StatusCode = code, Body = b, BodyError = None, ContentType = ''text/plain''\<rparr>"

definition world0 :: "(request \<Rightarrow> reply) \<Rightarrow> string world" where
  "world0 net =
     \<lparr>config = Some config0, sent = [], temp = Map.empty, now = 1700000000,
      transport = (\<lambda>h. net), request_error = (\<lambda>v u. None),
      Decode = (\<lambda>t r. if Body r = ''{}'' then Inr (Some ''data'') else Inl ''invalid character''),
      DecodeText = (\<lambda>r. Inr (Body r)), DecodeString = (\<lambda>s. Inr s), QueryEscape = (\<lambda>s. s),
      Encode = (\<lambda>ps. []), fault = (\<lambda>op. None), TempDir = ''/tmp'', random_names = [''1''],
      boundary = ''xyz''\<rparr>"









text \<open>Networks that refuse the file \<open>b\<close>, and options for the signed requests.\<close>

definition refusing_b :: "request \<Rightarrow> reply" where
  "refusing_b r =
     (if url r = ''https://api/files/private/b'' then Inr (answer_with 500 ''boom'')
      else Inr (answer_with 200 ''{}''))"

definition signed0 :: SignedUploadOptions where
  "signed0 = \<lparr>su_Date = 0, su_Expires = 60, su_GroupID = ''g'', su_Name = [], su_KeyValues = [],
               su_Vectorize = True, su_MaxFileSize = 1024, su_MimeTypes = [''image/png'']\<rparr>"

definition link0 :: AccessLinkOptions where
  "link0 = \<lparr>al_CID = ''bafy'', al_Date = 0, al_Expires = 60, al_Gateway = []\<rparr>"

definition refusing_public_b :: "request \<Rightarrow> reply" where
  "refusing_public_b r =
     (if url r = ''https://api/files/public/b'' then Inr (answer_with 403 ''denied'')
      else Inr (answer_with 200 ''{}''))"

text \<open>
  An open file with options that set \<open>Vectorize\<close>, and the world \<open>calm\<close> after the fetch
  of \<open>http://h/f\<close>.
\<close>

definition file0 :: os_file where
  "file0 = \<lparr>Name = ''/home/u/pinnie.png'', Stat = Inr ''pinnie.png'', Seek = None,
             Read = Inr (Raw ''PNG'')\<rparr>"

definition fopts0 :: FileOptions where
  "fopts0 = \<lparr>fo_FileName = ''Pinnie'', fo_GroupID = [], fo_KeyValues = [], fo_Vectorize = True\<rparr>"


text \<open>
  A response body that holds a quoted link with an escaped ampersand, and a world whose
  disk is full: every write to a temporary file fails.
\<close>

definition quoted_link :: string where
  "quoted_link = CHR 0x22 # ''u?a=1'' @ CHR 0x5C # ''u0026b=2'' @ [CHR 0x22]"


section \<open>Lemmas\<close>

subsection \<open>Steps of the world\<close>

lemma step_refl [simp]: "step w [] w"
  by (simp add: step_def)

lemma stepD:
  assumes "step w xs w'"
  shows "sent w' = sent w @ xs" "config w' = config w" "transport w' = transport w"
    "Decode w' = Decode w" "DecodeText w' = DecodeText w" "now w' = now w"
    "request_error w' = request_error w" "fault w' = fault w" "boundary w' = boundary w"
proof -
  from assms have e: "w' = w\<lparr>sent := sent w @ xs, temp := temp w'\<rparr>" by (simp add: step_def)
  show "sent w' = sent w @ xs" by (subst e) simp
  show "config w' = config w" by (subst e) simp
  show "transport w' = transport w" by (subst e) simp
  show "Decode w' = Decode w" by (subst e) simp
  show "DecodeText w' = DecodeText w" by (subst e) simp
  show "now w' = now w" by (subst e) simp
  show "request_error w' = request_error w" by (subst e) simp
  show "fault w' = fault w" by (subst e) simp
  show "boundary w' = boundary w" by (subst e) simp
qed

lemma step_trans:
  assumes "step w xs w1" "step w1 ys w2"
  shows "step w (xs @ ys) w2"
proof -
  from assms(1) have a: "w1 = w\<lparr>sent := sent w @ xs, temp := temp w1\<rparr>" by (simp add: step_def)
  from assms(2) have b: "w2 = w1\<lparr>sent := sent w1 @ ys, temp := temp w2\<rparr>" by (simp add: step_def)
  have s: "sent w1 = sent w @ xs" by (subst a) simp
  have "w2 = (w\<lparr>sent := sent w @ xs, temp := temp w1\<rparr>)\<lparr>sent := (sent w @ xs) @ ys, temp := temp w2\<rparr>"
    using a b s by metis
  then show ?thesis by (simp add: step_def)
qed

subsection \<open>Calls that make a single request\<close>

text \<open>The four ways out of the request block.\<close>

lemma roundtrip_cases:
  obtains (unsent) e where "request_error w v u = Some e"
      "roundtrip v u b h w = (Inl (wrap ''failed to create request'' e), w)"
  | (failed) e where "request_error w v u = None" "snd (attempt v u b h w) = Inl e"
      "roundtrip v u b h w = (Inl (wrap ''failed to send request'' e), w\<lparr>sent := sent w @ [attempt v u b h w]\<rparr>)"
  | (refused) resp where "request_error w v u = None" "snd (attempt v u b h w) = Inr resp" "StatusCode resp \<noteq> 200"
      "roundtrip v u b h w = (Inl (api_error resp), w\<lparr>sent := sent w @ [attempt v u b h w]\<rparr>)"
  | (ok) resp where "request_error w v u = None" "snd (attempt v u b h w) = Inr resp" "StatusCode resp = 200"
      "roundtrip v u b h w = (Inr resp, w\<lparr>sent := sent w @ [attempt v u b h w]\<rparr>)"
proof (cases "request_error w v u")
  case (Some e)
  then show ?thesis using unsent by (simp add: roundtrip_def)
next
  case None
  show ?thesis
  proof (cases "snd (attempt v u b h w)")
    case (Inl e)
    then show ?thesis using None failed[of e] by (simp add: roundtrip_def client_Do_def attempt_def Let_def)
  next
    case (Inr resp)
    then show ?thesis using None refused[of resp] ok[of resp]
      by (cases "StatusCode resp = 200") (simp_all add: roundtrip_def client_Do_def attempt_def Let_def)
  qed
qed

lemma single_fail: "single g w (Inl f, w)"
  by (simp add: single_def)

lemma step_sent: "step w xs (w\<lparr>sent := sent w @ xs\<rparr>)"
  by (simp add: step_def)

lemma single_roundtrip: "single g w (finish g (roundtrip v u b h w))"
proof (cases rule: roundtrip_cases[of w v u b h])
  case (unsent e)
  then show ?thesis by (simp add: finish_def single_def)
next
  case (failed e)
  then show ?thesis
    unfolding single_def finish_def
    by (intro disjI2 exI[of _ "attempt v u b h w"]) (simp add: step_sent reported_def)
next
  case (refused resp)
  then show ?thesis
    unfolding single_def finish_def
    by (intro disjI2 exI[of _ "attempt v u b h w"]) (simp add: step_sent reported_def)
next
  case (ok resp)
  then show ?thesis
    unfolding single_def finish_def
    by (intro disjI2 exI[of _ "attempt v u b h w"]) (simp add: step_sent reported_def)
qed

lemma single_with_config:
  "(\<And>cfg. config w = Some cfg \<Longrightarrow> single g w (k cfg)) \<Longrightarrow> single g w (with_config w k)"
  by (cases "config w") (simp_all add: with_config_def single_fail)

lemmas single_intros = single_fail single_roundtrip single_with_config

lemma single_Get: "single (decode_data w TFile) w (files_Get net fid w)"
  unfolding files_Get_def by (intro single_intros)

lemma single_List: "single (decode_data w TFileList) w (files_List net opts w)"
  unfolding files_List_def by (intro single_intros)

lemma single_Update: "single (decode_data w TFile) w (files_Update net opts w)"
  unfolding files_Update_def by (auto split: option.splits intro!: single_intros)

lemma single_AddSwap: "single (decode_data w TSwap) w (files_AddSwap net opts w)"
  unfolding files_AddSwap_def by (auto split: option.splits intro!: single_intros)

lemma single_GetSwapHistory: "single (decode_data w TSwapList) w (files_GetSwapHistory net opts w)"
  unfolding files_GetSwapHistory_def by (auto split: option.splits intro!: single_intros)

lemma single_DeleteSwap: "single no_data w (files_DeleteSwap net cid w)"
  unfolding files_DeleteSwap_def by (auto intro!: single_intros)

lemma single_CreateAccessLink: "single (decode_text w clean_link) w (files_CreateAccessLink opts w)"
  unfolding files_CreateAccessLink_def by (auto split: option.splits intro!: single_intros)

lemma single_Vectorize: "single (decode_data w TVectorize) w (files_Vectorize fid w)"
  unfolding files_Vectorize_def by (auto intro!: single_intros)

lemma single_DeleteVectors: "single (decode_data w TVectorize) w (files_DeleteVectors fid w)"
  unfolding files_DeleteVectors_def by (auto intro!: single_intros)

lemma single_QueryVectors:
  "single (case opts of Some p \<Rightarrow> if vq_ReturnFile p then file_response else decode_data w TVectorQuery
           | None \<Rightarrow> decode_data w TVectorQuery) w (files_QueryVectors opts w)"
  unfolding files_QueryVectors_def by (auto split: option.splits intro!: single_intros)

lemma single_PinByHash: "single (decode_data w TPinByHash) w (files_PinByHash opts w)"
  unfolding files_PinByHash_def by (auto split: option.splits intro!: single_intros)

lemma single_Queue: "single (decode_data w TPinQueue) w (files_Queue opts w)"
  unfolding files_Queue_def by (intro single_intros)

lemma single_CancelPinRequest: "single no_data w (files_CancelPinRequest rid w)"
  unfolding files_CancelPinRequest_def by (auto intro!: single_intros)

lemma single_post_form: "single (decode_data w TUpload) w (post_form cfg parts w)"
  unfolding post_form_def by (intro single_intros)

lemma single_File: "single (decode_data w TUpload) w (upload_File file opts w)"
  unfolding upload_File_def
  by (auto split: option.splits sum.splits intro!: single_intros single_post_form)

lemma single_FileArray: "single (decode_data w TUpload) w (upload_FileArray files opts w)"
  unfolding upload_FileArray_def
  by (auto split: option.splits sum.splits intro!: single_intros single_post_form)

lemma single_CreateSignedURL: "single (decode_text w (\<lambda>d. d)) w (upload_CreateSignedURL opts w)"
  unfolding upload_CreateSignedURL_def by (auto split: option.splits intro!: single_intros)

subsection \<open>The staged uploads\<close>

lemma single_fail': "step w [] w1 \<Longrightarrow> single g w (Inl f, w1)"
  by (simp add: single_def)

lemma single_shift:
  assumes "step w [] w1" "single g w1 rw"
  shows "single g w rw"
  using assms step_trans[OF assms(1)] unfolding single_def
  by (metis append_Nil)

lemma step_decode_data: "step w xs w1 \<Longrightarrow> decode_data w1 = decode_data w"
  by (intro ext) (simp add: decode_data_def stepD)

lemma step_temp: "step w [] (w\<lparr>temp := T\<rparr>)"
  by (simp add: step_def)

lemma CreateTemp_step: "step w [] (snd (CreateTemp prefix suffix w))"
  by (simp add: CreateTemp_def step_temp split: option.splits)

lemma Write_step: "step w [] (snd (Write p c w))"
  by (simp add: Write_def step_temp split: option.splits)

lemma fst_Remove [simp]: "fst (Remove p rw) = fst rw"
  by (simp add: Remove_def split: prod.splits)

lemma step_Remove: "step w xs (snd rw) \<Longrightarrow> step w xs (snd (Remove p rw))"
proof -
  assume a: "step w xs (snd rw)"
  have "step (snd rw) [] (snd (Remove p rw))"
    by (simp add: Remove_def step_temp split: prod.splits)
  from step_trans[OF a this] show ?thesis by simp
qed

lemma single_Remove: "single g w rw \<Longrightarrow> single g w (Remove p rw)"
  unfolding single_def using step_Remove by fastforce

lemma single_upload_staged: "single (decode_data w TUpload) w (upload_staged p opts w)"
  unfolding upload_staged_def
  by (auto split: option.splits intro!: single_fail single_File)

lemma write_all_step: "step w [] (snd (write_all c p w))"
proof (cases "Write p c w")
  case (Pair r w1)
  then have "step w [] w1" using Write_step[of w p c] by simp
  then show ?thesis using Pair by (simp add: write_all_def split: option.splits)
qed

lemma io_Copy_step: "step w [] (snd (io_Copy p resp w))"
proof (cases "Write p (Raw (Body resp)) w")
  case (Pair r w1)
  then have "step w [] w1" using Write_step[of w p "Raw (Body resp)"] by simp
  then show ?thesis using Pair by (simp add: io_Copy_def split: option.splits)
qed

lemma copy_body_step: "step w [] (snd (copy_body resp p w))"
proof (cases "io_Copy p resp w")
  case (Pair r w1)
  then have "step w [] w1" using io_Copy_step[of w p resp] by simp
  then show ?thesis using Pair by (simp add: copy_body_def split: option.splits)
qed

lemma single_stage:
  assumes fill: "\<And>p w. step w [] (snd (fill p w))"
  shows "single (decode_data w TUpload) w (stage prefix suffix fill opts w)"
proof (cases "CreateTemp prefix suffix w")
  case (Pair r w1)
  then have s1: "step w [] w1" using CreateTemp_step[of w prefix suffix] by simp
  show ?thesis
  proof (cases r)
    case (Inl e)
    then show ?thesis using Pair s1 by (simp add: stage_def single_fail' wrap_def)
  next
    case (Inr p)
    obtain r2 w2 where W: "fill p w1 = (r2, w2)" by (cases "fill p w1")
    then have "step w1 [] w2" using fill[of w1 p] by simp
    with s1 have s2: "step w [] w2" using step_trans by fastforce
    have "single (decode_data w TUpload) w
            (case r2 of Some f \<Rightarrow> (Inl f, w2) | None \<Rightarrow> upload_staged p opts w2)"
    proof (cases r2)
      case None
      have "single (decode_data w2 TUpload) w2 (upload_staged p opts w2)"
        by (rule single_upload_staged)
      then show ?thesis using None s2 single_shift step_decode_data[OF s2] by fastforce
    next
      case (Some e)
      then show ?thesis using s2 by (simp add: single_fail')
    qed
    then show ?thesis using Pair Inr W by (simp add: stage_def single_Remove)
  qed
qed

lemma single_JSON: "single (decode_data w TUpload) w (upload_JSON data opts w)"
  unfolding upload_JSON_def by (auto split: sum.splits intro!: single_fail single_stage write_all_step)

lemma single_Base64: "single (decode_data w TUpload) w (upload_Base64 data opts w)"
  unfolding upload_Base64_def by (auto split: sum.splits intro!: single_fail single_stage write_all_step)

subsection \<open>Delete, URL, and every call\<close>

lemma reported_refused: "\<not> accepted r \<Longrightarrow> reported g r = Inl (report r)"
  by (auto simp: accepted_def reported_def report_def split: sum.splits)

lemma reported_accepted: "accepted r \<Longrightarrow> \<exists>resp. r = Inr resp \<and> StatusCode resp = 200 \<and> reported g r = g resp"
  by (auto simp: accepted_def reported_def split: sum.splits)

lemma single_conducted:
  assumes "single g w rw"
  shows "\<exists>xs. step w xs (snd rw) \<and> conducted (\<lambda>k. report) g 1 xs (fst rw)"
proof -
  from assms consider (a) "isl (fst rw)" "step w [] (snd rw)"
    | (b) x where "step w [x] (snd rw)" "fst rw = reported g (snd x)"
    unfolding single_def by blast
  then show ?thesis
  proof cases
    case a
    then show ?thesis by (intro exI[of _ "[]"]) (simp add: conducted_def)
  next
    case (b x)
    then show ?thesis
      by (intro exI[of _ "[x]"]) (simp add: conducted_def reported_refused)
  qed
qed

lemma fst_attempt [simp]: "fst (attempt v u b h w) = \<lparr>verb = v, url = u, header = h, body = b\<rparr>"
  by (simp add: attempt_def)

lemma reported_const: "accepted r \<Longrightarrow> reported (\<lambda>resp. c) r = c"
  by (auto simp: accepted_def reported_def split: sum.splits)

lemma conducted_Cons:
  assumes "accepted (snd x)" "xs \<noteq> []" "conducted rep g n xs r"
    and "\<And>k reply. rep' (Suc k) reply = rep k reply"
  shows "conducted rep' g (Suc n) (x # xs) r"
proof -
  have l: "Suc (length xs - 1) = length xs" using assms(2) by (cases xs) simp_all
  have "rep' (length xs) = rep (length xs - 1)" using assms(4)[of "length xs - 1"] l by auto
  then show ?thesis
    using assms(1-3) unfolding conducted_def by simp
qed

lemma conducted_early:
  "accepted (snd x) \<Longrightarrow> isl r \<Longrightarrow> 0 < n \<Longrightarrow> conducted rep g (Suc n) [x] r"
  by (simp add: conducted_def)

lemma conducted_last:
  "accepted (snd x) \<Longrightarrow> r = reported g (snd x) \<Longrightarrow> conducted rep g (Suc 0) [x] r"
  by (simp add: conducted_def)

lemma conducted_refused:
  "\<not> accepted (snd x) \<Longrightarrow> r = Inl (rep 0 (snd x)) \<Longrightarrow> conducted rep g (Suc n) [x] r"
  by (simp add: conducted_def)

lemma conducted_unsent: "isl r \<Longrightarrow> conducted rep g n [] r"
  by (simp add: conducted_def)

text \<open>The loop of \<open>Delete\<close>, by induction on the IDs left.\<close>

lemma delete_loop_conducted:
  "\<exists>xs. step w xs (snd (delete_loop cfg net ids rs w)) \<and>
        map fst xs = take (length xs) (map (delete_request cfg net) ids) \<and>
        (ids \<noteq> [] \<longrightarrow>
           conducted (\<lambda>k. report) (\<lambda>resp. Inr (Deleted (rs @ map deleted ids))) (length ids) xs
             (fst (delete_loop cfg net ids rs w)))"
proof (induction ids arbitrary: rs w)
  case Nil
  show ?case by (intro exI[of _ "[]"]) simp
next
  case (Cons i ids)
  define u where "u = APIUrl cfg @ ''/files/'' @ net @ ''/'' @ i"
  define x where "x = attempt ''DELETE'' u NoBody (api_header cfg) w"
  define w1 where "w1 = w\<lparr>sent := sent w @ [x]\<rparr>"
  define rs1 where "rs1 = rs @ [\<lparr>ID = i, Status = ''deleted''\<rparr>]"
  have fx: "fst x = delete_request cfg net i" by (simp add: x_def u_def delete_request_def)
  have loop: "delete_loop cfg net (i # ids) rs w =
     (case roundtrip ''DELETE'' u NoBody (api_header cfg) w of
        (Inl f, w') \<Rightarrow> (Inl f, w')
      | (Inr resp, w') \<Rightarrow> delete_loop cfg net ids rs1 w')"
    unfolding u_def rs1_def by simp
  have s1: "step w [x] w1" unfolding w1_def by (rule step_sent)
  show ?case
  proof (cases rule: roundtrip_cases[of w "''DELETE''" u NoBody "api_header cfg"])
    case (unsent e)
    then have "delete_loop cfg net (i # ids) rs w = (Inl (wrap ''failed to create request'' e), w)"
      using loop by simp
    then show ?thesis by (intro exI[of _ "[]"]) (simp add: conducted_unsent)
  next
    case (failed e)
    then have "delete_loop cfg net (i # ids) rs w = (Inl (wrap ''failed to send request'' e), w1)"
      using loop by (simp add: w1_def x_def)
    moreover have "\<not> accepted (snd x)" "report (snd x) = wrap ''failed to send request'' e"
      using failed by (simp_all add: x_def accepted_def report_def)
    ultimately show ?thesis using s1 fx
      by (intro exI[of _ "[x]"]) (simp add: conducted_refused)
  next
    case (refused resp)
    then have "delete_loop cfg net (i # ids) rs w = (Inl (api_error resp), w1)"
      using loop by (simp add: w1_def x_def)
    moreover have "\<not> accepted (snd x)" "report (snd x) = api_error resp"
      using refused by (simp_all add: x_def accepted_def report_def)
    ultimately show ?thesis using s1 fx
      by (intro exI[of _ "[x]"]) (simp add: conducted_refused)
  next
    case (ok resp)
    have acc: "accepted (snd x)" using ok by (simp add: accepted_def x_def)
    have run: "delete_loop cfg net (i # ids) rs w = delete_loop cfg net ids rs1 w1"
      using ok loop by (simp add: w1_def x_def)
    define rw where "rw = delete_loop cfg net ids rs1 w1"
    from Cons.IH[of w1 rs1] obtain xs where
      st: "step w1 xs (snd rw)" and
      rq: "map fst xs = take (length xs) (map (delete_request cfg net) ids)" and
      cd: "ids \<noteq> [] \<longrightarrow> conducted (\<lambda>k. report) (\<lambda>resp. Inr (Deleted (rs1 @ map deleted ids))) (length ids) xs (fst rw)"
      unfolding rw_def by blast
    have g: "(\<lambda>resp::response. Inr (Deleted (rs1 @ map deleted ids)) :: 'a answer result) =
             (\<lambda>resp. Inr (Deleted (rs @ map deleted (i # ids))))"
      by (simp add: deleted_def rs1_def)
    have st': "step w (x # xs) (snd rw)"
      using step_trans[OF s1 st] by simp
    have rq': "map fst (x # xs) = take (length (x # xs)) (map (delete_request cfg net) (i # ids))"
      using rq fx by simp
    have cd': "conducted (\<lambda>k. report) (\<lambda>resp. Inr (Deleted (rs @ map deleted (i # ids)))) (length (i # ids)) (x # xs) (fst rw)"
    proof (cases "ids = []")
      case True
      then have "xs = []" using rq by simp
      moreover have "fst rw = reported (\<lambda>resp. Inr (Deleted (rs @ map deleted (i # ids)))) (snd x)"
        using True acc by (simp add: rw_def rs1_def deleted_def reported_const)
      ultimately show ?thesis using True acc by (simp add: conducted_last)
    next
      case False
      with cd g have c: "conducted (\<lambda>k. report) (\<lambda>resp. Inr (Deleted (rs @ map deleted (i # ids)))) (length ids) xs (fst rw)"
        by simp
      show ?thesis
      proof (cases "xs = []")
        case True
        then have "isl (fst rw)" using c False by (simp add: conducted_def)
        then show ?thesis using True acc False by (simp add: conducted_early)
      next
        case nonempty: False
        show ?thesis using conducted_Cons[OF acc nonempty c] by simp
      qed
    qed
    show ?thesis unfolding run rw_def[symmetric] using st' rq' cd' by blast
  qed
qed

lemma refusal_std: "(\<And>u opts. c \<noteq> UploadURL u opts) \<Longrightarrow> refusal c = (\<lambda>k. report)"
  by (cases c) (auto intro!: ext)

lemma refusal_URL_Suc: "refusal (UploadURL u opts) (Suc k) r = report r"
  by simp

lemma files_Delete_conducted:
  "\<exists>xs. step w xs (snd (files_Delete net ids w)) \<and>
        conducted (\<lambda>k. report) (\<lambda>resp. Inr (Deleted (map deleted ids))) (length ids) xs
          (fst (files_Delete net ids w))"
proof (cases "ids = [] \<or> config w = None")
  case True
  then have "isl (fst (files_Delete net ids w))" "snd (files_Delete net ids w) = w"
    by (auto simp: files_Delete_def with_config_def)
  then show ?thesis by (intro exI[of _ "[]"]) (simp add: conducted_unsent)
next
  case False
  then obtain cfg where c: "config w = Some cfg" and n: "ids \<noteq> []" by auto
  then have "files_Delete net ids w = delete_loop cfg net ids [] w"
    by (simp add: files_Delete_def with_config_def)
  then show ?thesis using delete_loop_conducted[of w cfg net ids "[]"] n by auto
qed

lemma upload_URL_conducted:
  "\<exists>xs. step w xs (snd (upload_URL u opts w)) \<and>
        conducted (refusal (UploadURL u opts)) (decode_data w TUpload) 2 xs (fst (upload_URL u opts w))"
proof (cases "u = [] \<or> request_error w ''GET'' u \<noteq> None")
  case True
  then have "isl (fst (upload_URL u opts w))" "snd (upload_URL u opts w) = w"
    by (auto simp: upload_URL_def client_Get_def)
  then show ?thesis by (intro exI[of _ "[]"]) (simp add: conducted_unsent)
next
  case False
  define x where "x = attempt ''GET'' u NoBody [] w"
  define w1 where "w1 = w\<lparr>sent := sent w @ [x]\<rparr>"
  have s1: "step w [x] w1" unfolding w1_def by (rule step_sent)
  have get: "client_Get u w = (snd x, w1)"
    using False by (simp add: client_Get_def client_Do_def x_def w1_def attempt_def Let_def)
  show ?thesis
  proof (cases "accepted (snd x)")
    case refused: False
    then have "upload_URL u opts w = (Inl (refusal (UploadURL u opts) 0 (snd x)), w1)"
      using False get by (auto simp: upload_URL_def accepted_def split: sum.splits)
    then show ?thesis using s1 refused
      by (intro exI[of _ "[x]"]) (simp add: conducted_refused numeral_2_eq_2)
  next
    case True
    then obtain resp where r: "snd x = Inr resp" "StatusCode resp = 200"
      by (auto simp: accepted_def split: sum.splits)
    define names where "names = map_option (\<lambda>p. (ur_GroupID p, ur_KeyValues p,
                       if ur_Name p \<noteq> [] then ur_Name p else url_file_name u)) opts"
    define rw where "rw = stage ''pinata-url-'' [] (copy_body resp) names w1"
    have run: "upload_URL u opts w = rw"
      using False get r by (simp add: upload_URL_def rw_def names_def)
    have "single (decode_data w1 TUpload) w1 rw"
      unfolding rw_def by (rule single_stage) (rule copy_body_step)
    then have "single (decode_data w TUpload) w1 rw"
      using step_decode_data[OF s1] by simp
    from single_conducted[OF this] obtain ys where
      st: "step w1 ys (snd rw)" and cd: "conducted (\<lambda>k. report) (decode_data w TUpload) 1 ys (fst rw)"
      by blast
    have st': "step w (x # ys) (snd rw)" using step_trans[OF s1 st] by simp
    have "conducted (refusal (UploadURL u opts)) (decode_data w TUpload) 2 (x # ys) (fst rw)"
    proof (cases "ys = []")
      case True
      then have "isl (fst rw)" using cd by (simp add: conducted_def)
      then show ?thesis using True \<open>accepted (snd x)\<close> by (simp add: conducted_early numeral_2_eq_2)
    next
      case False
      show ?thesis
        using conducted_Cons[OF \<open>accepted (snd x)\<close> False cd, of "refusal (UploadURL u opts)"]
        by (simp add: numeral_2_eq_2)
    qed
    then show ?thesis unfolding run using st' by blast
  qed
qed

lemma single_run:
  assumes "\<And>n ids. c \<noteq> DeleteFiles n ids" "\<And>u opts. c \<noteq> UploadURL u opts"
  shows "single (made_of c w) w (run c w)"
  using assms
  by (cases c)
     (auto simp: single_Get single_List single_Update single_AddSwap single_GetSwapHistory
        single_DeleteSwap single_CreateAccessLink single_Vectorize single_DeleteVectors
        single_QueryVectors single_PinByHash single_Queue single_CancelPinRequest single_File
        single_FileArray single_JSON single_Base64 single_CreateSignedURL)

lemma budget_simple:
  "(\<And>n ids. c \<noteq> DeleteFiles n ids) \<Longrightarrow> (\<And>u opts. c \<noteq> UploadURL u opts) \<Longrightarrow> budget c = 1"
  by (cases c) auto

text \<open>Every call is conducted within its budget.\<close>

lemma run_conducted:
  "\<exists>xs. step w xs (snd (run c w)) \<and> conducted (refusal c) (made_of c w) (budget c) xs (fst (run c w))"
proof (cases "(\<exists>n ids. c = DeleteFiles n ids) \<or> (\<exists>u opts. c = UploadURL u opts)")
  case False
  then have a: "\<And>n ids. c \<noteq> DeleteFiles n ids" and b: "\<And>u opts. c \<noteq> UploadURL u opts" by auto
  show ?thesis
    using single_conducted[OF single_run[OF a b, of w]] refusal_std[OF b] budget_simple[OF a b]
    by simp
next
  case True
  then show ?thesis
  proof
    assume "\<exists>n ids. c = DeleteFiles n ids"
    then obtain n ids where c: "c = DeleteFiles n ids" by blast
    have "refusal c = (\<lambda>k. report)" using c by (intro refusal_std) simp
    then show ?thesis using files_Delete_conducted[of w "segment n" ids] c by simp
  next
    assume "\<exists>u opts. c = UploadURL u opts"
    then obtain u opts where c: "c = UploadURL u opts" by blast
    show ?thesis using upload_URL_conducted[of w u opts] c by simp
  qed
qed

lemma step_exchanges: "step w xs (snd (run c w)) \<Longrightarrow> exchanges c w = xs"
  by (simp add: exchanges_def stepD(1))

lemma run_exchanges:
  "step w (exchanges c w) (snd (run c w))"
  "conducted (refusal c) (made_of c w) (budget c) (exchanges c w) (fst (run c w))"
proof -
  from run_conducted[of w c] obtain xs where
    a: "step w xs (snd (run c w))" and
    b: "conducted (refusal c) (made_of c w) (budget c) xs (fst (run c w))" by blast
  have "exchanges c w = xs" using a by (rule step_exchanges)
  then show "step w (exchanges c w) (snd (run c w))"
    "conducted (refusal c) (made_of c w) (budget c) (exchanges c w) (fst (run c w))"
    using a b by simp_all
qed

lemma refusal_Err: "\<exists>m. refusal c k r = Err m"
proof (cases "\<exists>u opts. c = UploadURL u opts")
  case True
  then show ?thesis
    by (cases k; cases r) (auto simp: wrap_def report_def api_error_def)
next
  case False
  then have "refusal c = (\<lambda>k. report)" by (intro refusal_std) simp
  then show ?thesis by (cases r) (simp_all add: wrap_def report_def api_error_def)
qed

lemma refusal_message:
  "refusal c (length ys) (Inr resp) =
     Err (if fetch c ys then ''URL returned non-OK status: '' @ Itoa (StatusCode resp)
          else ''API error (status '' @ Itoa (StatusCode resp) @ ''): '' @ Body resp)"
proof (cases "\<exists>u opts. c = UploadURL u opts")
  case True
  then show ?thesis by (cases ys) (auto simp: report_def api_error_def)
next
  case False
  then have "refusal c = (\<lambda>k. report)" by (intro refusal_std) simp
  moreover have "\<not> fetch c ys" using False by (cases c) auto
  ultimately show ?thesis by (simp add: report_def api_error_def)
qed

lemma conducted_last_accepted:
  assumes "conducted rep g n xs r" "\<not> isl r"
  shows "length xs = n" "xs \<noteq> []" "accepted (snd (last xs))" "r = reported g (snd (last xs))"
proof -
  from assms show ne: "xs \<noteq> []" by (auto simp: conducted_def)
  from assms ne show acc: "accepted (snd (last xs))" by (auto simp: conducted_def split: if_splits)
  from assms ne acc show "length xs = n" by (auto simp: conducted_def split: if_splits)
  from assms ne acc show "r = reported g (snd (last xs))" by (auto simp: conducted_def split: if_splits)
qed

subsection \<open>The requests of particular methods\<close>

lemma snd_finish [simp]: "snd (finish g rw) = snd rw"
  by (simp add: finish_def split: prod.splits sum.splits)

lemma roundtrip_sent:
  "sent (snd (roundtrip v u b h w)) =
     sent w @ (if request_error w v u = None then [attempt v u b h w] else [])"
  by (cases rule: roundtrip_cases[of w v u b h]) simp_all

lemma roundtrip_unsent: "request_error w v u = Some e \<Longrightarrow> snd (roundtrip v u b h w) = w"
  by (simp add: roundtrip_def)

lemma map_of_put: "map_of (put k v kvs) k' = (if k' = k then Some v else map_of kvs k')"
proof (cases "k \<in> fst ` set kvs")
  case True
  have "map_of (map (\<lambda>(a, b). if a = k then (k, v) else (a, b)) kvs) k'
          = (if k' = k then (if k \<in> fst ` set kvs then Some v else None) else map_of kvs k')"
    by (induction kvs) (auto simp: rev_image_eqI)
  then show ?thesis using True by (simp add: put_def)
next
  case False
  then have "map_of kvs k = None" by (simp add: map_of_eq_None_iff)
  then show ?thesis using False by (auto simp: put_def map_add_def split: option.splits)
qed

lemma member_payload:
  "member (signed_url_payload p t) k =
     (if k = ''allow_mime_types'' \<and> su_MimeTypes p \<noteq> [] then Some (json_strings (su_MimeTypes p))
      else if k = ''max_file_size'' \<and> 0 < su_MaxFileSize p then Some (JInt (su_MaxFileSize p))
      else if k = ''vectorize'' \<and> su_Vectorize p then Some (JBool True)
      else if k = ''keyvalues'' \<and> su_KeyValues p \<noteq> [] then Some (json_strmap (su_KeyValues p))
      else if k = ''filename'' \<and> su_Name p \<noteq> [] then Some (JString (su_Name p))
      else if k = ''group_id'' \<and> su_GroupID p \<noteq> [] then Some (JString (su_GroupID p))
      else if k = ''date'' then Some (JInt (if su_Date p = 0 then t else su_Date p))
      else if k = ''expires'' then Some (JInt (su_Expires p))
      else if k = ''network'' then Some (JString ''private'')
      else None)"
  unfolding signed_url_payload_def Let_def
  by (simp add: map_of_put if_distrib[of "\<lambda>x. map_of x k"] del: map_of.simps) (simp)


lemma exchanges_CreateAccessLink:
  assumes "config w = Some cfg" "al_CID p \<noteq> []" "0 < al_Expires p"
  shows "exchanges (CreateAccessLink (Some p)) w =
     (if request_error w ''POST'' (APIUrl cfg @ ''/files/private/download_link'') = None
      then [attempt ''POST'' (APIUrl cfg @ ''/files/private/download_link'')
              (JsonBody (access_link_payload cfg p (now w))) (api_header cfg) w]
      else [])"
  using assms
  by (simp add: exchanges_def files_CreateAccessLink_def with_config_def roundtrip_sent)

lemma files_Delete_requests:
  assumes "config w = Some cfg"
  shows "map fst (exchanges (DeleteFiles n ids) w)
           = take (length (exchanges (DeleteFiles n ids) w)) (map (delete_request cfg (segment n)) ids)"
proof (cases "ids = []")
  case True
  then show ?thesis by (simp add: exchanges_def files_Delete_def)
next
  case False
  then have r: "run (DeleteFiles n ids) w = delete_loop cfg (segment n) ids [] w"
    using assms by (simp add: files_Delete_def with_config_def)
  from delete_loop_conducted[of w cfg "segment n" ids "[]"] obtain xs where
    "step w xs (snd (delete_loop cfg (segment n) ids [] w))"
    "map fst xs = take (length xs) (map (delete_request cfg (segment n)) ids)" by blast
  moreover from this(1) have "exchanges (DeleteFiles n ids) w = xs"
    using r step_exchanges by metis
  ultimately show ?thesis by simp
qed

lemma refused_is_last:
  assumes "list_all P (butlast xs)" "k < length xs" "\<not> P (xs ! k)"
  shows "Suc k = length xs"
proof (rule ccontr)
  assume "Suc k \<noteq> length xs"
  then have "k < length (butlast xs)" using assms(2) by simp
  then have "P (butlast xs ! k)" using assms(1) by (simp add: list_all_length)
  then show False using assms(3) \<open>k < length (butlast xs)\<close> by (simp add: nth_butlast)
qed

lemma part_names_file_fields:
  "set (map part_name (file_fields info opts)) \<subseteq> {''group_id'', ''name'', ''keyvalues''}"
  by (auto simp: file_fields_def split: option.splits)

lemma part_names_folder_fields:
  "set (map part_name (folder_fields opts)) \<subseteq> {''group_id'', ''name'', ''keyvalues''}"
  by (auto simp: folder_fields_def split: option.splits if_splits)

lemma part_names_add_files:
  "add_files files = Inr ps \<Longrightarrow> set (map part_name ps) \<subseteq> {''file''}"
proof (induction files arbitrary: ps)
  case Nil
  then show ?case by simp
next
  case (Cons a files)
  show ?case
  proof (cases a)
    case None
    then show ?thesis using Cons.prems by simp
  next
    case (Some f)
    with Cons.prems obtain c qs where
      "add_files files = Inr qs" "ps = FormFile ''file'' (filepath_Base (Name f)) c # qs"
      by (auto split: option.splits sum.splits)
    then show ?thesis using Cons.IH[of qs] by simp
  qed
qed

lemma exchanges_post_form:
  "sent (snd (post_form cfg parts w)) =
     sent w @ (if request_error w ''POST'' (UploadUrl cfg @ ''/files'') = None
               then [attempt ''POST'' (UploadUrl cfg @ ''/files'') (Multipart parts)
                       (upload_header (''multipart/form-data; boundary='' @ boundary w) cfg) w]
               else [])"
  by (simp add: post_form_def roundtrip_sent)

lemma exchanges_File:
  assumes "x \<in> set (exchanges (UploadFile file opts) w)"
  shows "\<exists>f info c. file = Some f \<and> Stat f = Inr info \<and> Read f = Inr c \<and>
           body (fst x) = Multipart ([FormField ''network'' ''private''] @ file_fields info opts
                                      @ [FormFile ''file'' (filepath_Base (Name f)) c])"
  using assms
  by (auto simp: exchanges_def upload_File_def with_config_def exchanges_post_form
           split: option.splits sum.splits if_splits)

lemma exchanges_FileArray:
  assumes "x \<in> set (exchanges (UploadFileArray files opts) w)"
  shows "\<exists>ps. add_files files = Inr ps \<and>
           body (fst x) = Multipart ([FormField ''network'' ''private''] @ folder_fields opts @ ps)"
  using assms
  by (auto simp: exchanges_def upload_FileArray_def with_config_def exchanges_post_form
           split: option.splits sum.splits if_splits)

lemma exchanges_SignedURL_body:
  assumes "x \<in> set (exchanges (CreateSignedURL opts) w)"
  shows "\<exists>q. opts = Some q \<and> body (fst x) = JsonBody (signed_url_payload q (now w))"
  using assms
  by (auto simp: exchanges_def upload_CreateSignedURL_def with_config_def roundtrip_sent
           split: option.splits if_splits)

lemma file_fields_Vectorize:
  "file_fields info (Some (p\<lparr>fo_Vectorize := b\<rparr>)) = file_fields info (Some p)"
  by (simp add: file_fields_def)

lemma folder_fields_Vectorize:
  "folder_fields (Some (p\<lparr>fo_Vectorize := b\<rparr>)) = folder_fields (Some p)"
  by (simp add: folder_fields_def)

lemma upload_File_Vectorize:
  "upload_File file (Some (p\<lparr>fo_Vectorize := b\<rparr>)) w = upload_File file (Some p) w"
  unfolding upload_File_def file_fields_Vectorize by (rule refl)

lemma upload_FileArray_Vectorize:
  "upload_FileArray files (Some (p\<lparr>fo_Vectorize := b\<rparr>)) w = upload_FileArray files (Some p) w"
  unfolding upload_FileArray_def folder_fields_Vectorize by (rule refl)

subsection \<open>Staging that succeeds\<close>












subsection \<open>What a call returns, by kind\<close>

lemma made_of_kind:
  "made_of c w resp =
     (case kind c of
        Envelope t \<Rightarrow>
          (case Decode w t resp of
             Inl e \<Rightarrow> Inl (Err (''failed to decode response: '' @ e))
           | Inr d \<Rightarrow> Inr (Data d))
      | Link \<Rightarrow>
          (case DecodeText w resp of
             Inl e \<Rightarrow> Inl (Err (''failed to decode response: '' @ e))
           | Inr d \<Rightarrow> Inr (Text (Trim (ReplaceAll d (CHR 0x5C # ''u0026'') ''&'') [CHR 0x22])))
      | Plain \<Rightarrow>
          (case DecodeText w resp of
             Inl e \<Rightarrow> Inl (Err (''failed to decode response: '' @ e))
           | Inr d \<Rightarrow> Inr (Text d))
      | RawFile \<Rightarrow>
          (case BodyError resp of
             Some e \<Rightarrow> Inl (Err (''failed to read response body: '' @ e))
           | None \<Rightarrow> Inr (FileContent (ContentType resp) (Body resp)))
      | Built ids \<Rightarrow> Inr (Deleted (map (\<lambda>i. \<lparr>ID = i, Status = ''deleted''\<rparr>) ids))
      | Nothing \<Rightarrow> Inr Done)"
  by (cases c)
     (simp_all add: decode_data_def decode_text_def clean_link_def escaped_amp_def file_response_def
        no_data_def deleted_def wrap_def split: sum.splits option.splits)

subsection \<open>Calls that get as far as their requests\<close>
























subsection \<open>The helpers called with nil options\<close>




subsection \<open>Evaluating calls in the concrete worlds\<close>


lemmas eval_defs = exchanges_def requests_def files_Delete_def with_config_def roundtrip_def
  client_Do_def world0_def config0_def answer_with_def api_header_def Let_def

lemmas upload_eval = exchanges_def upload_File_def post_form_def with_config_def roundtrip_def
  client_Do_def world0_def config0_def answer_with_def finish_def decode_data_def Let_def

section \<open>The claims\<close>

text \<open>
  C7. Every call leaves the client's configuration as it found it: the \<open>Config\<close> the
  service points to (all six fields) is the same after the call as before, whatever the
  call, its arguments, the network's answers and the outcome (a result, an error or a
  panic).
\<close>

theorem config_unchanged: "config (snd (run c w)) = config w"
  using run_exchanges(1)[of w c] by (rule stepD(2))

text \<open>
  C5. No call sends anything after a request has failed. The log of a call grows by the
  exchanges of that call only; every exchange but the last was answered with status 200;
  and when the last one met a transport error or a status other than 200, the call
  returns an error. So a failed request is the last thing its call sends: it is never
  sent again, and nothing else is sent after it.
\<close>

theorem no_retry:
  "sent (snd (run c w)) = sent w @ exchanges c w \<and>
   list_all (\<lambda>x. accepted (snd x)) (butlast (exchanges c w)) \<and>
   (exchanges c w \<noteq> [] \<and> \<not> accepted (snd (last (exchanges c w))) \<longrightarrow>
      (\<exists>m. fst (run c w) = Inl (Err m)))"
proof -
  have a: "sent (snd (run c w)) = sent w @ exchanges c w"
    using run_exchanges(1)[of w c] by (rule stepD(1))
  have b: "conducted (refusal c) (made_of c w) (budget c) (exchanges c w) (fst (run c w))"
    by (rule run_exchanges(2))
  from b have c: "list_all (\<lambda>x. accepted (snd x)) (butlast (exchanges c w))"
    by (simp add: conducted_def)
  have d: "\<exists>m. fst (run c w) = Inl (Err m)"
    if "exchanges c w \<noteq> []" "\<not> accepted (snd (last (exchanges c w)))"
    using b that refusal_Err[of c "length (exchanges c w) - 1" "snd (last (exchanges c w))"]
    by (auto simp: conducted_def)
  show ?thesis using a c d by blast
qed

text \<open>
  Witness: deleting \<open>a\<close>, \<open>b\<close>, \<open>c\<close> when the server refuses \<open>b\<close> with status 500. Two
  requests are sent, the second is refused, the call returns an error, and the request
  for \<open>c\<close> is never made.
\<close>

theorem no_retry_witness:
  "exchanges (DeleteFiles Private [''a'', ''b'', ''c'']) (world0 refusing_b) \<noteq> [] \<and>
   \<not> accepted (snd (last (exchanges (DeleteFiles Private [''a'', ''b'', ''c'']) (world0 refusing_b)))) \<and>
   length (exchanges (DeleteFiles Private [''a'', ''b'', ''c'']) (world0 refusing_b)) = 2 \<and>
   (\<exists>m. fst (run (DeleteFiles Private [''a'', ''b'', ''c'']) (world0 refusing_b)) = Inl (Err m))"
proof -
  have h: "exchanges (DeleteFiles Private [''a'', ''b'', ''c'']) (world0 refusing_b) \<noteq> [] \<and>
     \<not> accepted (snd (last (exchanges (DeleteFiles Private [''a'', ''b'', ''c'']) (world0 refusing_b)))) \<and>
     length (exchanges (DeleteFiles Private [''a'', ''b'', ''c'']) (world0 refusing_b)) = 2"
    by (simp add: eval_defs refusing_b_def accepted_def)
  from no_retry[of "DeleteFiles Private [''a'', ''b'', ''c'']" "world0 refusing_b"] h
  show ?thesis by blast
qed




text \<open>
  C3, as stated, fails twice. \<open>QueryVectors\<close> with \<open>ReturnFile\<close> returns a result made
  of the raw body where no envelope decodes, and \<open>URL\<close> reports a refused fetch of its
  target by the status code alone, without the body (\<open>gone\<close> here).
\<close>

theorem envelope_counterexample:
  "fst (run (QueryVectors (Some \<lparr>vq_GroupID = ''g'', vq_Query = ''q'', vq_ReturnFile = True\<rparr>))
          (world0 (\<lambda>r. Inr (answer_with 200 ''raw'')))) = Inr (FileContent ''text/plain'' ''raw'') \<and>
   Decode (world0 (\<lambda>r. Inr (answer_with 200 ''raw''))) TVectorQuery (answer_with 200 ''raw'')
     = Inl ''invalid character'' \<and>
   fst (run (UploadURL ''http://h/f'' None) (world0 (\<lambda>r. Inr (answer_with 404 ''gone''))))
     = Inl (Err ''URL returned non-OK status: 404'')"
  by (simp add: eval_defs files_QueryVectors_def finish_def file_response_def upload_URL_def
        client_Get_def Itoa_def digits.simps digit_def)

text \<open>
  C3, amended. When a request of a call is answered with a status other than 200, the
  call returns the zero result and an error:
  \<open>API error (status N): body\<close> for every request sent to the service, and
  \<open>URL returned non-OK status: N\<close> for the fetch that \<open>URL\<close> makes first (\<open>fetch\<close>:
  the call is \<open>URL\<close> and no exchange came before). A call that returns a result
  received status 200 on its last request, and the result is, by the \<open>kind\<close> of the
  method: the \<open>data\<close> member of the envelope that the decoder reads from that response,
  for the methods that decode one; the \<open>data\<close> string of the envelope, with every
  escaped ampersand (the six characters backslash, u, 0, 0, 2, 6) replaced by \<open>&\<close>
  and then the double quotes trimmed from both ends, for
  \<open>CreateAccessLink\<close>, and as it came for \<open>CreateSignedURL\<close>; the body and the
  content type of the response, undecoded, for \<open>QueryVectors\<close> with \<open>ReturnFile\<close>; the
  list of the IDs, each with the status \<open>deleted\<close>, for \<open>Delete\<close>; no value for
  \<open>DeleteSwap\<close> and \<open>CancelPinRequest\<close>. Conversely, when the last request of the
  budget is answered with status 200, the call returns that result, or, when the
  decoder (for \<open>ReturnFile\<close>, the read of the body) fails with \<open>e\<close>, the error
  \<open>failed to decode response: e\<close> (\<open>failed to read response body: e\<close>).
\<close>

theorem responses_reported:
  "(\<forall>ys req resp. exchanges c w = ys @ [(req, Inr resp)] \<and> StatusCode resp \<noteq> 200 \<longrightarrow>
      fst (run c w) =
        Inl (Err (if fetch c ys then ''URL returned non-OK status: '' @ Itoa (StatusCode resp)
                  else ''API error (status '' @ Itoa (StatusCode resp) @ ''): '' @ Body resp))) \<and>
   (\<forall>v. fst (run c w) = Inr v \<longrightarrow>
      (\<exists>ys req resp. exchanges c w = ys @ [(req, Inr resp)] \<and> StatusCode resp = 200 \<and>
         (case kind c of
            Envelope t \<Rightarrow> (\<exists>d. Decode w t resp = Inr d \<and> v = Data d)
          | Link \<Rightarrow>
              (\<exists>d. DecodeText w resp = Inr d \<and>
                 v = Text (Trim (ReplaceAll d (CHR 0x5C # ''u0026'') ''&'') [CHR 0x22]))
          | Plain \<Rightarrow> (\<exists>d. DecodeText w resp = Inr d \<and> v = Text d)
          | RawFile \<Rightarrow> BodyError resp = None \<and> v = FileContent (ContentType resp) (Body resp)
          | Built ids \<Rightarrow> v = Deleted (map (\<lambda>i. \<lparr>ID = i, Status = ''deleted''\<rparr>) ids)
          | Nothing \<Rightarrow> v = Done))) \<and>
   (\<forall>ys req resp. exchanges c w = ys @ [(req, Inr resp)] \<and> StatusCode resp = 200 \<and>
        length (exchanges c w) = budget c \<longrightarrow>
      fst (run c w) =
        (case kind c of
           Envelope t \<Rightarrow>
             (case Decode w t resp of
                Inl e \<Rightarrow> Inl (Err (''failed to decode response: '' @ e))
              | Inr d \<Rightarrow> Inr (Data d))
         | Link \<Rightarrow>
             (case DecodeText w resp of
                Inl e \<Rightarrow> Inl (Err (''failed to decode response: '' @ e))
              | Inr d \<Rightarrow> Inr (Text (Trim (ReplaceAll d (CHR 0x5C # ''u0026'') ''&'') [CHR 0x22])))
         | Plain \<Rightarrow>
             (case DecodeText w resp of
                Inl e \<Rightarrow> Inl (Err (''failed to decode response: '' @ e))
              | Inr d \<Rightarrow> Inr (Text d))
         | RawFile \<Rightarrow>
             (case BodyError resp of
                Some e \<Rightarrow> Inl (Err (''failed to read response body: '' @ e))
              | None \<Rightarrow> Inr (FileContent (ContentType resp) (Body resp)))
         | Built ids \<Rightarrow> Inr (Deleted (map (\<lambda>i. \<lparr>ID = i, Status = ''deleted''\<rparr>) ids))
         | Nothing \<Rightarrow> Inr Done))"
proof -
  have b: "conducted (refusal c) (made_of c w) (budget c) (exchanges c w) (fst (run c w))"
    by (rule run_exchanges(2))
  have one: "fst (run c w) =
        Inl (Err (if fetch c ys then ''URL returned non-OK status: '' @ Itoa (StatusCode resp)
                  else ''API error (status '' @ Itoa (StatusCode resp) @ ''): '' @ Body resp))"
    if "exchanges c w = ys @ [(req, Inr resp)]" "StatusCode resp \<noteq> 200" for ys req resp
    using b that by (simp add: conducted_def accepted_def refusal_message)
  have three: "fst (run c w) = made_of c w resp"
    if "exchanges c w = ys @ [(req, Inr resp)]" "StatusCode resp = 200"
       "length (exchanges c w) = budget c" for ys req resp
    using b that by (simp add: conducted_def accepted_def reported_def)
  have two: "\<exists>ys req resp. exchanges c w = ys @ [(req, Inr resp)] \<and> StatusCode resp = 200 \<and>
         made_of c w resp = Inr v" if v: "fst (run c w) = Inr v" for v
  proof -
    have n: "\<not> isl (fst (run c w))" using v by simp
    note l = conducted_last_accepted[OF b n]
    from reported_accepted[OF l(3), of "made_of c w"] obtain resp where
      r: "snd (last (exchanges c w)) = Inr resp" "StatusCode resp = 200"
         "reported (made_of c w) (snd (last (exchanges c w))) = made_of c w resp" by blast
    have "exchanges c w = butlast (exchanges c w) @ [(fst (last (exchanges c w)), Inr resp)]"
      using l(2) r(1) by (metis append_butlast_last_id prod.collapse)
    then show ?thesis using r l(4) v by metis
  qed
  have k: "(case kind c of
            Envelope t \<Rightarrow> (\<exists>d. Decode w t resp = Inr d \<and> v = Data d)
          | Link \<Rightarrow>
              (\<exists>d. DecodeText w resp = Inr d \<and>
                 v = Text (Trim (ReplaceAll d (CHR 0x5C # ''u0026'') ''&'') [CHR 0x22]))
          | Plain \<Rightarrow> (\<exists>d. DecodeText w resp = Inr d \<and> v = Text d)
          | RawFile \<Rightarrow> BodyError resp = None \<and> v = FileContent (ContentType resp) (Body resp)
          | Built ids \<Rightarrow> v = Deleted (map (\<lambda>i. \<lparr>ID = i, Status = ''deleted''\<rparr>) ids)
          | Nothing \<Rightarrow> v = Done)" if "made_of c w resp = Inr v" for resp v
    using that unfolding made_of_kind
    by (cases "kind c") (auto split: sum.splits option.splits)
  show ?thesis
  proof (intro conjI allI impI)
    fix ys req resp
    assume "exchanges c w = ys @ [(req, Inr resp)] \<and> StatusCode resp \<noteq> 200"
    then show "fst (run c w) =
        Inl (Err (if fetch c ys then ''URL returned non-OK status: '' @ Itoa (StatusCode resp)
                  else ''API error (status '' @ Itoa (StatusCode resp) @ ''): '' @ Body resp))"
      using one by blast
  next
    fix v
    assume "fst (run c w) = Inr v"
    from two[OF this] obtain ys req resp where
      "exchanges c w = ys @ [(req, Inr resp)]" "StatusCode resp = 200" "made_of c w resp = Inr v"
      by blast
    with k[OF this(3)] show "\<exists>ys req resp. exchanges c w = ys @ [(req, Inr resp)] \<and> StatusCode resp = 200 \<and>
         (case kind c of
            Envelope t \<Rightarrow> (\<exists>d. Decode w t resp = Inr d \<and> v = Data d)
          | Link \<Rightarrow>
              (\<exists>d. DecodeText w resp = Inr d \<and>
                 v = Text (Trim (ReplaceAll d (CHR 0x5C # ''u0026'') ''&'') [CHR 0x22]))
          | Plain \<Rightarrow> (\<exists>d. DecodeText w resp = Inr d \<and> v = Text d)
          | RawFile \<Rightarrow> BodyError resp = None \<and> v = FileContent (ContentType resp) (Body resp)
          | Built ids \<Rightarrow> v = Deleted (map (\<lambda>i. \<lparr>ID = i, Status = ''deleted''\<rparr>) ids)
          | Nothing \<Rightarrow> v = Done)"
      by blast
  next
    fix ys req resp
    assume "exchanges c w = ys @ [(req, Inr resp)] \<and> StatusCode resp = 200 \<and>
        length (exchanges c w) = budget c"
    then have "fst (run c w) = made_of c w resp" using three by blast
    then show "fst (run c w) =
        (case kind c of
           Envelope t \<Rightarrow>
             (case Decode w t resp of
                Inl e \<Rightarrow> Inl (Err (''failed to decode response: '' @ e))
              | Inr d \<Rightarrow> Inr (Data d))
         | Link \<Rightarrow>
             (case DecodeText w resp of
                Inl e \<Rightarrow> Inl (Err (''failed to decode response: '' @ e))
              | Inr d \<Rightarrow> Inr (Text (Trim (ReplaceAll d (CHR 0x5C # ''u0026'') ''&'') [CHR 0x22])))
         | Plain \<Rightarrow>
             (case DecodeText w resp of
                Inl e \<Rightarrow> Inl (Err (''failed to decode response: '' @ e))
              | Inr d \<Rightarrow> Inr (Text d))
         | RawFile \<Rightarrow>
             (case BodyError resp of
                Some e \<Rightarrow> Inl (Err (''failed to read response body: '' @ e))
              | None \<Rightarrow> Inr (FileContent (ContentType resp) (Body resp)))
         | Built ids \<Rightarrow> Inr (Deleted (map (\<lambda>i. \<lparr>ID = i, Status = ''deleted''\<rparr>) ids))
         | Nothing \<Rightarrow> Inr Done)"
      by (simp only: made_of_kind)
  qed
qed

text \<open>
  Witness: \<open>Get\<close> answered with status 404 and the body \<open>gone\<close> returns the error that
  carries both; \<open>CreateAccessLink\<close> answered with status 200 returns the link of the
  envelope, unescaped and without its quotes.
\<close>

theorem responses_reported_witness:
  "exchanges (GetFile Private ''f'') (world0 (\<lambda>r. Inr (answer_with 404 ''gone'')))
     = [] @ [(\<lparr>verb = ''GET'', url = ''https://api/files/private/f'',
               header = [(''Authorization'', ''Bearer jwt''), (''Content-Type'', ''application/json'')],
               body = NoBody\<rparr>, Inr (answer_with 404 ''gone''))] \<and>
   StatusCode (answer_with 404 ''gone'') \<noteq> 200 \<and>
   fst (run (GetFile Private ''f'') (world0 (\<lambda>r. Inr (answer_with 404 ''gone''))))
     = Inl (Err ''API error (status 404): gone'') \<and>
   exchanges (CreateAccessLink (Some link0)) (world0 (\<lambda>r. Inr (answer_with 200 quoted_link)))
     = [] @ [(\<lparr>verb = ''POST'', url = ''https://api/files/private/download_link'',
               header = [(''Authorization'', ''Bearer jwt''), (''Content-Type'', ''application/json'')],
               body = JsonBody (JObject
                 [(''url'', JString ''https://gw.mypinata.cloud/files/bafy''),
                  (''date'', JInt 1700000000), (''expires'', JInt 60), (''method'', JString ''GET'')])\<rparr>,
              Inr (answer_with 200 quoted_link))] \<and>
   StatusCode (answer_with 200 quoted_link) = 200 \<and>
   length (exchanges (CreateAccessLink (Some link0)) (world0 (\<lambda>r. Inr (answer_with 200 quoted_link))))
     = budget (CreateAccessLink (Some link0)) \<and>
   fst (run (CreateAccessLink (Some link0)) (world0 (\<lambda>r. Inr (answer_with 200 quoted_link))))
     = Inr (Text ''u?a=1&b=2'')"
proof -
  let ?W = "world0 (\<lambda>r. Inr (answer_with 200 quoted_link))"
  have h: "exchanges (GetFile Private ''f'') (world0 (\<lambda>r. Inr (answer_with 404 ''gone'')))
     = [] @ [(\<lparr>verb = ''GET'', url = ''https://api/files/private/f'',
               header = [(''Authorization'', ''Bearer jwt''), (''Content-Type'', ''application/json'')],
               body = NoBody\<rparr>, Inr (answer_with 404 ''gone''))] \<and>
     StatusCode (answer_with 404 ''gone'') \<noteq> 200"
    by (simp add: eval_defs files_Get_def finish_def)
  note r = responses_reported[of "GetFile Private ''f''" "world0 (\<lambda>r. Inr (answer_with 404 ''gone''))",
      THEN conjunct1, rule_format, OF h]
  have m: "fst (run (GetFile Private ''f'') (world0 (\<lambda>r. Inr (answer_with 404 ''gone''))))
     = Inl (Err ''API error (status 404): gone'')"
    using r by (simp add: answer_with_def Itoa_def digits.simps digit_def)
  have g: "exchanges (CreateAccessLink (Some link0)) ?W
     = [] @ [(\<lparr>verb = ''POST'', url = ''https://api/files/private/download_link'',
               header = [(''Authorization'', ''Bearer jwt''), (''Content-Type'', ''application/json'')],
               body = JsonBody (JObject
                 [(''url'', JString ''https://gw.mypinata.cloud/files/bafy''),
                  (''date'', JInt 1700000000), (''expires'', JInt 60), (''method'', JString ''GET'')])\<rparr>,
              Inr (answer_with 200 quoted_link))] \<and>
     StatusCode (answer_with 200 quoted_link) = 200 \<and>
     length (exchanges (CreateAccessLink (Some link0)) ?W) = budget (CreateAccessLink (Some link0))"
    by (simp add: eval_defs files_CreateAccessLink_def finish_def link0_def access_link_payload_def)
  note s = responses_reported[of "CreateAccessLink (Some link0)" ?W,
      THEN conjunct2, THEN conjunct2, rule_format, OF g]
  have d: "DecodeText ?W (answer_with 200 quoted_link) = Inr quoted_link"
    by (simp add: world0_def answer_with_def)
  have t: "Trim (ReplaceAll quoted_link (CHR 0x5C # ''u0026'') ''&'') [CHR 0x22] = ''u?a=1&b=2''"
    by (simp add: ReplaceAll.simps Trim_def quoted_link_def)
  have n: "fst (run (CreateAccessLink (Some link0)) ?W) = Inr (Text ''u?a=1&b=2'')"
    using s by (simp add: d t)
  from h m g n show ?thesis by blast
qed



text \<open>
  C6. A call of \<open>CreateAccessLink\<close> with options whose \<open>CID\<close> is not empty and whose
  \<open>Expires\<close> is positive, on a configured client, sends (unless \<open>http.NewRequest\<close>
  rejects the URL) exactly one request: a POST to
  \<open>{APIUrl}/files/private/download_link\<close> whose payload has \<open>url\<close> equal to
  \<open>https://{gateway}.mypinata.cloud/files/{CID}\<close>, the gateway being \<open>opts.Gateway\<close> or,
  when that is empty, the configured \<open>PinataGateway\<close>; \<open>date\<close> equal to \<open>opts.Date\<close> or,
  when that is zero, the current Unix time; \<open>expires\<close> equal to \<open>opts.Expires\<close>; and
  \<open>method\<close> equal to \<open>GET\<close>. With nil options, an empty \<open>CID\<close> or an \<open>Expires\<close> that is
  not positive the call returns an error and the world is as before: no request is sent.
\<close>

theorem access_link_request:
  "(config w = Some cfg \<and> al_CID p \<noteq> [] \<and> 0 < al_Expires p \<longrightarrow>
      requests (CreateAccessLink (Some p)) w =
        (if request_error w ''POST'' (APIUrl cfg @ ''/files/private/download_link'') = None
         then [\<lparr>verb = ''POST'', url = APIUrl cfg @ ''/files/private/download_link'',
                 header = [(''Authorization'', ''Bearer '' @ PinataJWT cfg),
                           (''Content-Type'', ''application/json'')] @ CustomHeaders cfg,
                 body = JsonBody (JObject
                   [(''url'', JString (''https://''
                        @ (if al_Gateway p = [] then PinataGateway cfg else al_Gateway p)
                        @ ''.mypinata.cloud/files/'' @ al_CID p)),
                    (''date'', JInt (if al_Date p = 0 then now w else al_Date p)),
                    (''expires'', JInt (al_Expires p)),
                    (''method'', JString ''GET'')])\<rparr>]
         else [])) \<and>
   ((case opts of None \<Rightarrow> True | Some q \<Rightarrow> al_CID q = [] \<or> al_Expires q \<le> 0) \<longrightarrow>
      run (CreateAccessLink opts) w = (Inl (Err ''CID and expiration time are required''), w))"
proof -
  have a: "requests (CreateAccessLink (Some p)) w =
        (if request_error w ''POST'' (APIUrl cfg @ ''/files/private/download_link'') = None
         then [\<lparr>verb = ''POST'', url = APIUrl cfg @ ''/files/private/download_link'',
                 header = [(''Authorization'', ''Bearer '' @ PinataJWT cfg),
                           (''Content-Type'', ''application/json'')] @ CustomHeaders cfg,
                 body = JsonBody (JObject
                   [(''url'', JString (''https://''
                        @ (if al_Gateway p = [] then PinataGateway cfg else al_Gateway p)
                        @ ''.mypinata.cloud/files/'' @ al_CID p)),
                    (''date'', JInt (if al_Date p = 0 then now w else al_Date p)),
                    (''expires'', JInt (al_Expires p)),
                    (''method'', JString ''GET'')])\<rparr>]
         else [])" if "config w = Some cfg" "al_CID p \<noteq> []" "0 < al_Expires p"
    using exchanges_CreateAccessLink[OF that]
    by (simp add: requests_def api_header_def access_link_payload_def)
  have b: "run (CreateAccessLink opts) w = (Inl (Err ''CID and expiration time are required''), w)"
    if "case opts of None \<Rightarrow> True | Some q \<Rightarrow> al_CID q = [] \<or> al_Expires q \<le> 0"
    using that by (auto simp: files_CreateAccessLink_def split: option.splits)
  show ?thesis using a b by blast
qed

text \<open>Witness: a call in a configured world, and one with nil options.\<close>

theorem access_link_request_witness:
  "config (world0 (\<lambda>r. Inr (answer_with 200 ''url''))) = Some config0 \<and> al_CID link0 \<noteq> [] \<and>
   0 < al_Expires link0 \<and>
   requests (CreateAccessLink (Some link0)) (world0 (\<lambda>r. Inr (answer_with 200 ''url''))) =
     [\<lparr>verb = ''POST'', url = ''https://api/files/private/download_link'',
       header = [(''Authorization'', ''Bearer jwt''), (''Content-Type'', ''application/json'')],
       body = JsonBody (JObject
         [(''url'', JString ''https://gw.mypinata.cloud/files/bafy''),
          (''date'', JInt 1700000000), (''expires'', JInt 60), (''method'', JString ''GET'')])\<rparr>] \<and>
   run (CreateAccessLink None) (world0 (\<lambda>r. Inr (answer_with 200 ''url'')))
     = (Inl (Err ''CID and expiration time are required''), world0 (\<lambda>r. Inr (answer_with 200 ''url'')))"
proof -
  have h: "config (world0 (\<lambda>r. Inr (answer_with 200 ''url''))) = Some config0 \<and> al_CID link0 \<noteq> [] \<and>
     0 < al_Expires link0"
    by (simp add: world0_def link0_def)
  have k: "case (None :: AccessLinkOptions option) of None \<Rightarrow> True | Some q \<Rightarrow> al_CID q = [] \<or> al_Expires q \<le> 0"
    by simp
  from access_link_request[of "world0 (\<lambda>r. Inr (answer_with 200 ''url''))" config0 link0 None] h k
  show ?thesis by (simp add: world0_def config0_def link0_def)
qed

text \<open>
  C9. \<open>Delete\<close>, public or private. An empty list of IDs returns an error and sends
  nothing. On a configured client the requests of a call are the DELETE requests for the
  IDs, one per ID and in the order of the list, up to where the call stops. A call that
  returns a result has sent one request per ID and returns one \<open>DeleteResponse\<close> per ID,
  in the order of the list, each with that ID and the status \<open>deleted\<close>: the list is a
  function of the IDs alone, no part of it is read from a response. A request that
  meets a transport error or a status other than 200 is the last of its call: the
  requests for the IDs before it were sent and accepted, and the call returns the zero
  result with the error of that request.
\<close>

theorem delete_responses:
  "(ids = [] \<longrightarrow> run (DeleteFiles n ids) w = (Inl (Err ''at least one file ID is required''), w)) \<and>
   (config w = Some cfg \<longrightarrow>
      map fst (exchanges (DeleteFiles n ids) w)
        = take (length (exchanges (DeleteFiles n ids) w)) (map (delete_request cfg (segment n)) ids)) \<and>
   (\<forall>v. fst (run (DeleteFiles n ids) w) = Inr v \<longrightarrow>
      ids \<noteq> [] \<and> v = Deleted (map (\<lambda>i. \<lparr>ID = i, Status = ''deleted''\<rparr>) ids) \<and>
      length (exchanges (DeleteFiles n ids) w) = length ids) \<and>
   (\<forall>k. k < length (exchanges (DeleteFiles n ids) w) \<and>
        \<not> accepted (snd (exchanges (DeleteFiles n ids) w ! k)) \<longrightarrow>
      length (exchanges (DeleteFiles n ids) w) = Suc k \<and>
      list_all (\<lambda>x. accepted (snd x)) (take k (exchanges (DeleteFiles n ids) w)) \<and>
      fst (run (DeleteFiles n ids) w) = Inl (report (snd (exchanges (DeleteFiles n ids) w ! k))))"
proof -
  let ?c = "DeleteFiles n ids"
  let ?xs = "exchanges ?c w"
  have b: "conducted (\<lambda>k. report) (made_of ?c w) (length ids) ?xs (fst (run ?c w))"
    using run_exchanges(2)[of ?c w] refusal_std[of ?c] by simp
  have one: "run ?c w = (Inl (Err ''at least one file ID is required''), w)" if "ids = []"
    using that by (simp add: files_Delete_def)
  have three: "ids \<noteq> [] \<and> v = Deleted (map (\<lambda>i. \<lparr>ID = i, Status = ''deleted''\<rparr>) ids) \<and> length ?xs = length ids"
    if v: "fst (run ?c w) = Inr v" for v
  proof -
    have n: "\<not> isl (fst (run ?c w))" using v by simp
    note l = conducted_last_accepted[OF b n]
    have "fst (run ?c w) = Inr (Deleted (map deleted ids))"
      using l(4) l(3) by (simp add: reported_const)
    then show ?thesis using v l(1) l(2) by (auto simp: deleted_def)
  qed
  have four: "length ?xs = Suc k \<and> list_all (\<lambda>x. accepted (snd x)) (take k ?xs) \<and>
      fst (run ?c w) = Inl (report (snd (?xs ! k)))"
    if k: "k < length ?xs" "\<not> accepted (snd (?xs ! k))" for k
  proof -
    from b have all: "list_all (\<lambda>x. accepted (snd x)) (butlast ?xs)" by (simp add: conducted_def)
    have "Suc k = length ?xs" by (rule refused_is_last[OF all k])
    then have len: "length ?xs = Suc k" by simp
    then have ne: "?xs \<noteq> []" by auto
    have la: "last ?xs = ?xs ! k" using len ne by (simp add: last_conv_nth)
    have tk: "take k ?xs = butlast ?xs" using len by (simp add: butlast_conv_take)
    have "fst (run ?c w) = Inl (report (snd (?xs ! k)))"
      using b ne la k(2) len by (simp add: conducted_def)
    then show ?thesis using len all tk by simp
  qed
  show ?thesis using one files_Delete_requests three four by blast
qed

text \<open>
  Witness: a server that refuses \<open>b\<close>. Deleting nothing is an error; deleting \<open>a\<close> and
  \<open>c\<close> succeeds; deleting \<open>a\<close>, \<open>b\<close>, \<open>c\<close> sends the requests for \<open>a\<close> and \<open>b\<close> and
  returns the error of \<open>b\<close>, with \<open>a\<close> deleted all the same.
\<close>

theorem delete_responses_witness:
  "run (DeleteFiles Public []) (world0 refusing_public_b)
     = (Inl (Err ''at least one file ID is required''), world0 refusing_public_b) \<and>
   fst (run (DeleteFiles Public [''a'', ''c'']) (world0 refusing_public_b))
     = Inr (Deleted [\<lparr>ID = ''a'', Status = ''deleted''\<rparr>, \<lparr>ID = ''c'', Status = ''deleted''\<rparr>]) \<and>
   map (url \<circ> fst) (exchanges (DeleteFiles Public [''a'', ''b'', ''c'']) (world0 refusing_public_b))
     = [''https://api/files/public/a'', ''https://api/files/public/b''] \<and>
   fst (run (DeleteFiles Public [''a'', ''b'', ''c'']) (world0 refusing_public_b))
     = Inl (Err ''API error (status 403): denied'')"
proof -
  have h1: "([] :: string list) = []" by simp
  have h2: "fst (run (DeleteFiles Public [''a'', ''c'']) (world0 refusing_public_b))
     = Inr (Deleted [\<lparr>ID = ''a'', Status = ''deleted''\<rparr>, \<lparr>ID = ''c'', Status = ''deleted''\<rparr>])"
    by (simp add: eval_defs refusing_public_b_def)
  have h3: "config (world0 refusing_public_b) = Some config0" by (simp add: world0_def)
  have h4: "1 < length (exchanges (DeleteFiles Public [''a'', ''b'', ''c'']) (world0 refusing_public_b)) \<and>
     \<not> accepted (snd (exchanges (DeleteFiles Public [''a'', ''b'', ''c'']) (world0 refusing_public_b) ! 1)) \<and>
     report (snd (exchanges (DeleteFiles Public [''a'', ''b'', ''c'']) (world0 refusing_public_b) ! 1))
       = Err ''API error (status 403): denied''"
    by (simp add: eval_defs refusing_public_b_def accepted_def report_def api_error_def Itoa_def
          digits.simps digit_def)
  note t1 = delete_responses[of "[]" Public "world0 refusing_public_b" config0]
  note t2 = delete_responses[of "[''a'', ''b'', ''c'']" Public "world0 refusing_public_b" config0]
  have a: "run (DeleteFiles Public []) (world0 refusing_public_b)
     = (Inl (Err ''at least one file ID is required''), world0 refusing_public_b)"
    using t1 h1 by blast
  have l: "length (exchanges (DeleteFiles Public [''a'', ''b'', ''c'']) (world0 refusing_public_b)) = 2"
    and e: "fst (run (DeleteFiles Public [''a'', ''b'', ''c'']) (world0 refusing_public_b))
     = Inl (Err ''API error (status 403): denied'')"
    using t2 h4 by auto
  have "map fst (exchanges (DeleteFiles Public [''a'', ''b'', ''c'']) (world0 refusing_public_b))
        = take 2 (map (delete_request config0 (segment Public)) [''a'', ''b'', ''c''])"
    using t2 h3 l by auto
  then have "map url (map fst (exchanges (DeleteFiles Public [''a'', ''b'', ''c'']) (world0 refusing_public_b)))
        = [''https://api/files/public/a'', ''https://api/files/public/b'']"
    by (simp add: delete_request_def config0_def)
  then show ?thesis using a h2 e by simp
qed

text \<open>
  C10. Whatever the options, every request \<open>File\<close> or \<open>FileArray\<close> sends carries a
  multipart form with no part named \<open>vectorize\<close>: its parts are \<open>network\<close>, \<open>group_id\<close>,
  \<open>name\<close>, \<open>keyvalues\<close> and \<open>file\<close>. \<open>FileOptions.Vectorize\<close> is not read at all: setting
  it to any value changes nothing of what the call does. \<open>CreateSignedURL\<close>, in contrast,
  puts \<open>"vectorize": true\<close> into the payload of its request when \<open>opts.Vectorize\<close> is set.
\<close>

theorem no_vectorize_field:
  "(\<forall>x \<in> set (exchanges (UploadFile file opts) w).
      \<exists>parts. body (fst x) = Multipart parts \<and> ''vectorize'' \<notin> set (map part_name parts)) \<and>
   (\<forall>x \<in> set (exchanges (UploadFileArray files opts) w).
      \<exists>parts. body (fst x) = Multipart parts \<and> ''vectorize'' \<notin> set (map part_name parts)) \<and>
   run (UploadFile file (Some (p\<lparr>fo_Vectorize := b\<rparr>))) w = run (UploadFile file (Some p)) w \<and>
   run (UploadFileArray files (Some (p\<lparr>fo_Vectorize := b\<rparr>))) w = run (UploadFileArray files (Some p)) w \<and>
   (\<forall>x \<in> set (exchanges (CreateSignedURL (Some q)) w).
      su_Vectorize q \<longrightarrow>
        (\<exists>j. body (fst x) = JsonBody j \<and> member j ''vectorize'' = Some (JBool True)))"
proof -
  have a: "\<exists>parts. body (fst x) = Multipart parts \<and> ''vectorize'' \<notin> set (map part_name parts)"
    if "x \<in> set (exchanges (UploadFile file opts) w)" for x
  proof -
    from exchanges_File[OF that] obtain f :: os_file and info c where
      "body (fst x) = Multipart ([FormField ''network'' ''private''] @ file_fields info opts
                                      @ [FormFile ''file'' (filepath_Base (Name f)) c])" by blast
    moreover have "''vectorize'' \<notin> set (map part_name (file_fields info opts))"
      using part_names_file_fields[of info opts] by auto
    ultimately show ?thesis by simp
  qed
  have b: "\<exists>parts. body (fst x) = Multipart parts \<and> ''vectorize'' \<notin> set (map part_name parts)"
    if "x \<in> set (exchanges (UploadFileArray files opts) w)" for x
  proof -
    from exchanges_FileArray[OF that] obtain ps where
      ps: "add_files files = Inr ps"
      "body (fst x) = Multipart ([FormField ''network'' ''private''] @ folder_fields opts @ ps)" by blast
    moreover have "''vectorize'' \<notin> set (map part_name (folder_fields opts))"
      using part_names_folder_fields[of opts] by auto
    moreover have "''vectorize'' \<notin> set (map part_name ps)"
      using part_names_add_files[OF ps(1)] by auto
    ultimately show ?thesis by (auto simp: image_Un)
  qed
  have c: "\<exists>j. body (fst x) = JsonBody j \<and> member j ''vectorize'' = Some (JBool True)"
    if "x \<in> set (exchanges (CreateSignedURL (Some q)) w)" "su_Vectorize q" for x
    using exchanges_SignedURL_body[OF that(1)] that(2) by (simp add: member_payload)
  show ?thesis using a b c by (simp add: upload_File_Vectorize upload_FileArray_Vectorize)
qed

text \<open>
  Witness: an upload with \<open>Vectorize\<close> set sends a form without the field, and a signed
  URL request with \<open>Vectorize\<close> set carries it.
\<close>

theorem no_vectorize_field_witness:
  "hd (exchanges (UploadFile (Some file0) (Some fopts0)) (world0 (\<lambda>r. Inr (answer_with 200 ''{}''))))
     \<in> set (exchanges (UploadFile (Some file0) (Some fopts0)) (world0 (\<lambda>r. Inr (answer_with 200 ''{}'')))) \<and>
   (\<exists>parts. body (fst (hd (exchanges (UploadFile (Some file0) (Some fopts0))
                              (world0 (\<lambda>r. Inr (answer_with 200 ''{}''))))))
              = Multipart parts \<and> ''vectorize'' \<notin> set (map part_name parts)) \<and>
   hd (exchanges (CreateSignedURL (Some signed0)) (world0 (\<lambda>r. Inr (answer_with 200 ''url''))))
     \<in> set (exchanges (CreateSignedURL (Some signed0)) (world0 (\<lambda>r. Inr (answer_with 200 ''url'')))) \<and>
   su_Vectorize signed0 \<and>
   (\<exists>j. body (fst (hd (exchanges (CreateSignedURL (Some signed0))
                         (world0 (\<lambda>r. Inr (answer_with 200 ''url''))))))
          = JsonBody j \<and> member j ''vectorize'' = Some (JBool True))"
proof -
  have h1: "hd (exchanges (UploadFile (Some file0) (Some fopts0)) (world0 (\<lambda>r. Inr (answer_with 200 ''{}''))))
     \<in> set (exchanges (UploadFile (Some file0) (Some fopts0)) (world0 (\<lambda>r. Inr (answer_with 200 ''{}''))))"
    by (simp add: upload_eval file0_def)
  have h2: "hd (exchanges (CreateSignedURL (Some signed0)) (world0 (\<lambda>r. Inr (answer_with 200 ''url''))))
     \<in> set (exchanges (CreateSignedURL (Some signed0)) (world0 (\<lambda>r. Inr (answer_with 200 ''url''))))"
    by (simp add: upload_eval upload_CreateSignedURL_def signed0_def)
  have h3: "su_Vectorize signed0" by (simp add: signed0_def)
  from no_vectorize_field[of "Some file0" "Some fopts0" "world0 (\<lambda>r. Inr (answer_with 200 ''{}''))"]
  have a: "\<exists>parts. body (fst (hd (exchanges (UploadFile (Some file0) (Some fopts0))
                              (world0 (\<lambda>r. Inr (answer_with 200 ''{}''))))))
              = Multipart parts \<and> ''vectorize'' \<notin> set (map part_name parts)"
    using h1 by blast
  from no_vectorize_field[of _ _ "world0 (\<lambda>r. Inr (answer_with 200 ''url''))" _ _ _ signed0]
  have b: "\<exists>j. body (fst (hd (exchanges (CreateSignedURL (Some signed0))
                         (world0 (\<lambda>r. Inr (answer_with 200 ''url''))))))
          = JsonBody j \<and> member j ''vectorize'' = Some (JBool True)"
    using h2 h3 by blast
  show ?thesis using h1 h2 h3 a b by blast
qed







end
